theory Spec2Isabelle
  imports Complex_Main "HOL-Library.Multiset"
begin

section \<open>Sensor readings and the threshold evaluator (models/SensorData.js)\<close>

text \<open>
  A JavaScript Number is an IEEE double. Every finite double is a rational number and the
  comparisons of the evaluator are exact on them, so a numeric field is a \<open>rat option\<close>:
  \<open>None\<close> stands for a field that is undefined (or null, or NaN: all three are falsy and
  stop the evaluator at the presence check). The thresholds of the source (50, 120, 40,
  140, 95, 90, 38.5, 35.5, 35, 10, 5) are doubles without rounding error.
\<close>

datatype severity = Info | Warning | Critical | Emergency

datatype alert_type =
    heart_rate_abnormal | spo2_low | temperature_abnormal | fall_detected | battery_low
  | device_offline | sensor_malfunction | emergency_button | location_outside_safe_zone
  | medication_reminder | inactivity_detected | panic_alert

text \<open>The three vital-sign groups \<open>heartRate\<close>, \<open>spO2\<close>, \<open>bodyTemperature\<close>: \<open>{ value, ... }\<close>.\<close>

record measurement =
  mvalue :: "rat option"

record motion_data =
  fallDetected :: bool

record device_data =
  batteryLevel :: "rat option"

record reading =
  heartRate :: "measurement option"
  spO2 :: "measurement option"
  bodyTemperature :: "measurement option"
  motion :: "motion_data option"
  device :: "device_data option"

text \<open>
  An entry of the \<open>emergencies\<close> array. Its \<open>value\<close> is a number or, for a fall, \<open>true\<close>.
  The message is a template literal: the pieces of text and the interpolated numbers are
  kept apart, so the model does not depend on how a Number is printed.
\<close>

datatype js_value = JNum rat | JBool bool

datatype msg_part = Txt string | NumTxt rat

record classification =
  ctype :: alert_type
  cseverity :: severity
  cvalue :: js_value
  cmessage :: "msg_part list"

text \<open>
  The presence test \<open>this.g && this.g.f\<close>: it passes with the value \<open>v\<close> of the field when the
  group is there, the field is there and \<open>v\<close> is truthy, that is, not zero.
\<close>

definition truthy_field :: "'g option \<Rightarrow> ('g \<Rightarrow> rat option) \<Rightarrow> rat option" where
  "truthy_field grp fld =
     (case grp of
        None \<Rightarrow> None
      | Some g \<Rightarrow> (case fld g of
                    None \<Rightarrow> None
                  | Some v \<Rightarrow> if v = 0 then None else Some v))"

text \<open>
  Each block of \<open>checkEmergencyConditions\<close> takes the array so far and may push one entry.
  The literals 38.5 and 35.5 are written \<open>77 / 2\<close> and \<open>71 / 2\<close>; the degree sign of the
  temperature message is its two UTF-8 bytes.
\<close>

definition heartRate_block :: "reading \<Rightarrow> classification list \<Rightarrow> classification list" where
  "heartRate_block this emergencies =
     (case truthy_field (heartRate this) mvalue of
        None \<Rightarrow> emergencies
      | Some v \<Rightarrow>
          if v < 50 \<or> v > 120
          then emergencies @
                 [\<lparr>ctype = heart_rate_abnormal,
                   cseverity = (if v < 40 \<or> v > 140 then Critical else Warning),
                   cvalue = JNum v,
                   cmessage = [Txt ''Heart rate '', NumTxt v, Txt '' BPM is '',
                               Txt (if v < 50 then ''too low'' else ''too high'')]\<rparr>]
          else emergencies)"

definition spO2_block :: "reading \<Rightarrow> classification list \<Rightarrow> classification list" where
  "spO2_block this emergencies =
     (case truthy_field (spO2 this) mvalue of
        None \<Rightarrow> emergencies
      | Some v \<Rightarrow>
          if v < 95
          then emergencies @
                 [\<lparr>ctype = spo2_low,
                   cseverity = (if v < 90 then Critical else Warning),
                   cvalue = JNum v,
                   cmessage = [Txt ''Blood oxygen level '', NumTxt v,
                               Txt ''% is dangerously low'']\<rparr>]
          else emergencies)"

definition temperature_block :: "reading \<Rightarrow> classification list \<Rightarrow> classification list" where
  "temperature_block this emergencies =
     (case truthy_field (bodyTemperature this) mvalue of
        None \<Rightarrow> emergencies
      | Some v \<Rightarrow>
          if v > 77 / 2 \<or> v < 71 / 2
          then emergencies @
                 [\<lparr>ctype = temperature_abnormal,
                   cseverity = (if v > 40 \<or> v < 35 then Critical else Warning),
                   cvalue = JNum v,
                   cmessage = [Txt ''Body temperature '', NumTxt v,
                               Txt ([CHR 0xC2, CHR 0xB0] @ ''C is ''),
                               Txt (if v > 77 / 2 then ''too high'' else ''too low'')]\<rparr>]
          else emergencies)"

definition fall_block :: "reading \<Rightarrow> classification list \<Rightarrow> classification list" where
  "fall_block this emergencies =
     (case motion this of
        None \<Rightarrow> emergencies
      | Some m \<Rightarrow>
          if fallDetected m
          then emergencies @
                 [\<lparr>ctype = fall_detected,
                   cseverity = Critical,
                   cvalue = JBool True,
                   cmessage = [Txt ''Fall detected! Immediate attention required.'']\<rparr>]
          else emergencies)"

definition battery_block :: "reading \<Rightarrow> classification list \<Rightarrow> classification list" where
  "battery_block this emergencies =
     (case truthy_field (device this) batteryLevel of
        None \<Rightarrow> emergencies
      | Some v \<Rightarrow>
          if v < 10
          then emergencies @
                 [\<lparr>ctype = battery_low,
                   cseverity = (if v < 5 then Critical else Warning),
                   cvalue = JNum v,
                   cmessage = [Txt ''Device battery level is critically low: '', NumTxt v,
                               Txt ''%'']\<rparr>]
          else emergencies)"

definition checkEmergencyConditions :: "reading \<Rightarrow> classification list" where
  "checkEmergencyConditions this =
     battery_block this
       (fall_block this
         (temperature_block this
           (spO2_block this
             (heartRate_block this []))))"

text \<open>
  The nominal ranges of the specification, for the fields that a reading carries:
  heart rate in [50, 120], SpO2 at least 95, temperature in [35.5, 38.5], no fall flag,
  battery at least 15. A field that is absent is not constrained.
\<close>

definition field_in :: "'g option \<Rightarrow> ('g \<Rightarrow> rat option) \<Rightarrow> (rat \<Rightarrow> bool) \<Rightarrow> bool" where
  "field_in grp fld ok =
     (case grp of
        None \<Rightarrow> True
      | Some g \<Rightarrow> (case fld g of None \<Rightarrow> True | Some v \<Rightarrow> ok v))"

definition heartRate_nominal :: "reading \<Rightarrow> bool" where
  "heartRate_nominal r = field_in (heartRate r) mvalue (\<lambda>v. 50 \<le> v \<and> v \<le> 120)"

definition spO2_nominal :: "reading \<Rightarrow> bool" where
  "spO2_nominal r = field_in (spO2 r) mvalue (\<lambda>v. 95 \<le> v)"

definition temperature_nominal :: "reading \<Rightarrow> bool" where
  "temperature_nominal r = field_in (bodyTemperature r) mvalue (\<lambda>v. 71 / 2 \<le> v \<and> v \<le> 77 / 2)"

definition fall_nominal :: "reading \<Rightarrow> bool" where
  "fall_nominal r = (case motion r of None \<Rightarrow> True | Some m \<Rightarrow> \<not> fallDetected m)"

definition battery_nominal :: "reading \<Rightarrow> bool" where
  "battery_nominal r = field_in (device r) batteryLevel (\<lambda>v. 15 \<le> v)"

text \<open>A reading with all five groups, used for the concrete cases below.\<close>

definition full_reading :: "rat \<Rightarrow> rat \<Rightarrow> rat \<Rightarrow> bool \<Rightarrow> rat \<Rightarrow> reading" where
  "full_reading hr ox temp fall batt =
     \<lparr>heartRate = Some \<lparr>mvalue = Some hr\<rparr>,
      spO2 = Some \<lparr>mvalue = Some ox\<rparr>,
      bodyTemperature = Some \<lparr>mvalue = Some temp\<rparr>,
      motion = Some \<lparr>fallDetected = fall\<rparr>,
      device = Some \<lparr>batteryLevel = Some batt\<rparr>\<rparr>"

text \<open>
  The five blocks as a table of rules. \<open>block_pushes\<close> is the condition of the source under
  which the block of the rule pushes (presence test and bounds, as the code has them),
  \<open>rule_type\<close> the type it pushes, \<open>source_order\<close> the order of the blocks in the source;
  \<open>evaluate_in_order\<close> runs the blocks in any given order.
\<close>

datatype rule = HeartRateRule | SpO2Rule | TemperatureRule | FallRule | BatteryRule

fun rule_block :: "rule \<Rightarrow> reading \<Rightarrow> classification list \<Rightarrow> classification list" where
  "rule_block HeartRateRule = heartRate_block"
| "rule_block SpO2Rule = spO2_block"
| "rule_block TemperatureRule = temperature_block"
| "rule_block FallRule = fall_block"
| "rule_block BatteryRule = battery_block"

fun rule_type :: "rule \<Rightarrow> alert_type" where
  "rule_type HeartRateRule = heart_rate_abnormal"
| "rule_type SpO2Rule = spo2_low"
| "rule_type TemperatureRule = temperature_abnormal"
| "rule_type FallRule = fall_detected"
| "rule_type BatteryRule = battery_low"

fun block_pushes :: "rule \<Rightarrow> reading \<Rightarrow> bool" where
  "block_pushes HeartRateRule this =
     (case truthy_field (heartRate this) mvalue of None \<Rightarrow> False | Some v \<Rightarrow> v < 50 \<or> v > 120)"
| "block_pushes SpO2Rule this =
     (case truthy_field (spO2 this) mvalue of None \<Rightarrow> False | Some v \<Rightarrow> v < 95)"
| "block_pushes TemperatureRule this =
     (case truthy_field (bodyTemperature this) mvalue of
        None \<Rightarrow> False | Some v \<Rightarrow> v > 77 / 2 \<or> v < 71 / 2)"
| "block_pushes FallRule this =
     (case motion this of None \<Rightarrow> False | Some m \<Rightarrow> fallDetected m)"
| "block_pushes BatteryRule this =
     (case truthy_field (device this) batteryLevel of None \<Rightarrow> False | Some v \<Rightarrow> v < 10)"

definition source_order :: "rule list" where
  "source_order = [HeartRateRule, SpO2Rule, TemperatureRule, FallRule, BatteryRule]"

definition evaluate_in_order :: "rule list \<Rightarrow> reading \<Rightarrow> classification list" where
  "evaluate_in_order order this = foldl (\<lambda>emergencies k. rule_block k this emergencies) [] order"

text \<open>
  The rules in the words of the specification (section 4.2), with the bounds of the
  evaluator: a rule fires if its field is present and outside its bound (heart rate below
  50 or above 120, SpO2 below 95, temperature below 35.5 or above 38.5, battery below 10),
  and the fall rule if the flag is set. Here a field that holds 0 is present.
  \<open>spec_fired\<close> lists the rules that fire, in the order of the source.
\<close>

definition present_and :: "'g option \<Rightarrow> ('g \<Rightarrow> rat option) \<Rightarrow> (rat \<Rightarrow> bool) \<Rightarrow> bool" where
  "present_and grp fld out_of_bound =
     (case grp of
        None \<Rightarrow> False
      | Some g \<Rightarrow> (case fld g of None \<Rightarrow> False | Some v \<Rightarrow> out_of_bound v))"

fun spec_fires :: "rule \<Rightarrow> reading \<Rightarrow> bool" where
  "spec_fires HeartRateRule r = present_and (heartRate r) mvalue (\<lambda>v. v < 50 \<or> v > 120)"
| "spec_fires SpO2Rule r = present_and (spO2 r) mvalue (\<lambda>v. v < 95)"
| "spec_fires TemperatureRule r =
     present_and (bodyTemperature r) mvalue (\<lambda>v. v < 71 / 2 \<or> v > 77 / 2)"
| "spec_fires FallRule r = (case motion r of None \<Rightarrow> False | Some m \<Rightarrow> fallDetected m)"
| "spec_fires BatteryRule r = present_and (device r) batteryLevel (\<lambda>v. v < 10)"

definition spec_fired :: "reading \<Rightarrow> rule list" where
  "spec_fired r = filter (\<lambda>k. spec_fires k r) source_order"

text \<open>
  The reading in which a heart-rate, SpO2 or temperature value of exactly 0 is taken for a
  missing value.
\<close>

definition drop_zero :: "measurement option \<Rightarrow> measurement option" where
  "drop_zero grp =
     (case grp of
        None \<Rightarrow> None
      | Some m \<Rightarrow> if mvalue m = Some 0 then Some (m\<lparr>mvalue := None\<rparr>) else Some m)"

definition zero_as_absent :: "reading \<Rightarrow> reading" where
  "zero_as_absent r =
     r\<lparr>heartRate := drop_zero (heartRate r),
       spO2 := drop_zero (spO2 r),
       bodyTemperature := drop_zero (bodyTemperature r)\<rparr>"

text \<open>Readings that differ from a given one in the heart rate or the SpO2 value only.\<close>

definition with_heartRate :: "rat \<Rightarrow> reading \<Rightarrow> reading" where
  "with_heartRate v r = r\<lparr>heartRate := Some \<lparr>mvalue = Some v\<rparr>\<rparr>"

definition with_spO2 :: "rat \<Rightarrow> reading \<Rightarrow> reading" where
  "with_spO2 v r = r\<lparr>spO2 := Some \<lparr>mvalue = Some v\<rparr>\<rparr>"

definition nominal_example :: reading where
  "nominal_example = full_reading 72 98 (73 / 2) False 80"

text \<open>The field of a group is there and holds exactly \<open>v\<close>.\<close>

definition has_value :: "'g option \<Rightarrow> ('g \<Rightarrow> rat option) \<Rightarrow> rat \<Rightarrow> bool" where
  "has_value grp fld v = (case grp of None \<Rightarrow> False | Some g \<Rightarrow> fld g = Some v)"

section \<open>Alerts (models/Alert.js)\<close>

text \<open>
  The part of the alert document that the lifecycle and escalation code reads or writes.
  Dates are milliseconds since the epoch, as \<open>getTime()\<close> and \<open>Date.now()\<close> give them;
  all clock reads of one call return the instant \<open>now\<close> of that call. \<open>createdAt\<close> is
  undefined (\<open>None\<close>) until the document is first saved. \<open>isNew\<close> is the flag that Mongoose
  keeps on a document that has not been saved yet.
\<close>

datatype alert_status = Active | Acknowledged | Resolved | FalsePositive

record escalation_rule =
  rlevel :: "int option"
  timeThreshold :: "int option"
  contacts :: "string list"

record response_info =
  acknowledgedBy :: "string option"
  acknowledgedAt :: "int option"
  resolvedBy :: "string option"
  resolvedAt :: "int option"
  responseTime :: "int option"
  rnotes :: "string option"

record escalation_info =
  level :: int
  escalatedAt :: "int option"
  escalationRules :: "escalation_rule list"
  maxEscalationLevel :: int

record alert =
  alert_id :: string
  deviceId :: string
  deviceName :: string
  atype :: alert_type
  severity :: severity
  title :: string
  message :: "msg_part list"
  status :: alert_status
  response :: response_info
  escalation :: escalation_info
  createdAt :: "int option"
  isNew :: bool

text \<open>The collection \<open>alerts\<close>, keyed by \<open>_id\<close>.\<close>

type_synonym store = "string \<rightharpoonup> alert"

text \<open>
  Reading \<open>.getTime()\<close> of an undefined \<open>createdAt\<close> throws a TypeError; casting a malformed
  identifier to an ObjectId throws a CastError.
\<close>

datatype js_error = TypeError | CastError

text \<open>
  \<open>new Alert({...})\<close>: the fields that the caller passes, and the defaults of the schema for
  those left out (severity warning, status active, level 1, no rules,
  maxEscalationLevel 3).
\<close>

record alert_fields =
  f_deviceId :: string
  f_deviceName :: string
  f_type :: alert_type
  f_severity :: "severity option"
  f_title :: string
  f_message :: "msg_part list"
  f_level :: "int option"
  f_escalationRules :: "escalation_rule list"
  f_maxEscalationLevel :: "int option"

definition new_Alert :: "string \<Rightarrow> alert_fields \<Rightarrow> alert" where
  "new_Alert oid f =
     \<lparr>alert_id = oid,
      deviceId = f_deviceId f,
      deviceName = f_deviceName f,
      atype = f_type f,
      severity = (case f_severity f of None \<Rightarrow> Warning | Some s \<Rightarrow> s),
      title = f_title f,
      message = f_message f,
      status = Active,
      response = \<lparr>acknowledgedBy = None, acknowledgedAt = None, resolvedBy = None,
                   resolvedAt = None, responseTime = None, rnotes = None\<rparr>,
      escalation = \<lparr>level = (case f_level f of None \<Rightarrow> 1 | Some l \<Rightarrow> l),
                     escalatedAt = None,
                     escalationRules = f_escalationRules f,
                     maxEscalationLevel =
                       (case f_maxEscalationLevel f of None \<Rightarrow> 3 | Some m \<Rightarrow> m)\<rparr>,
      createdAt = None,
      isNew = True\<rparr>"

text \<open>The pre-save middleware that sets the default escalation rules.\<close>

definition default_rule :: "int \<Rightarrow> int \<Rightarrow> escalation_rule" where
  "default_rule l t = \<lparr>rlevel = Some l, timeThreshold = Some t, contacts = []\<rparr>"

definition pre_save :: "alert \<Rightarrow> alert" where
  "pre_save this =
     (if isNew this \<and> length (escalationRules (escalation this)) = 0
      then (case severity this of
              Emergency \<Rightarrow>
                this\<lparr>escalation := (escalation this)
                  \<lparr>escalationRules := [default_rule 1 0, default_rule 2 2, default_rule 3 5]\<rparr>\<rparr>
            | Critical \<Rightarrow>
                this\<lparr>escalation := (escalation this)
                  \<lparr>escalationRules := [default_rule 1 0, default_rule 2 5, default_rule 3 15]\<rparr>\<rparr>
            | Warning \<Rightarrow>
                this\<lparr>escalation := (escalation this)
                  \<lparr>escalationRules := [default_rule 1 0, default_rule 2 15, default_rule 3 60]\<rparr>\<rparr>
            | _ \<Rightarrow>
                this\<lparr>escalation := (escalation this)
                  \<lparr>escalationRules := [default_rule 1 0, default_rule 2 60],
                   maxEscalationLevel := 2\<rparr>\<rparr>)
      else this)"

text \<open>
  \<open>this.save()\<close>: the pre-save middleware runs, the option \<open>timestamps: true\<close> gives a new
  document its \<open>createdAt\<close>, the document is written to the collection and is no longer
  new. The write is taken to succeed: a failure of the database is outside the model, and
  so is the validation of the required strings.
\<close>

definition save :: "int \<Rightarrow> alert \<Rightarrow> store \<Rightarrow> alert \<times> store" where
  "save now this db =
     (let doc = pre_save this;
          saved = doc\<lparr>createdAt := (if isNew doc \<and> createdAt doc = None then Some now
                                     else createdAt doc),
                     isNew := False\<rparr>
      in (saved, db(alert_id saved \<mapsto> saved)))"

text \<open>
  \<open>Alert.findById\<close>. Mongoose casts the identifier of the request to an ObjectId, written
  as 24 hexadecimal digits, and throws a CastError for any other string. A document loaded
  from the collection is not new.
\<close>

definition is_hex_digit :: "char \<Rightarrow> bool" where
  "is_hex_digit c = (c \<in> set ''0123456789abcdefABCDEF'')"

definition valid_object_id :: "string \<Rightarrow> bool" where
  "valid_object_id oid = (length oid = 24 \<and> list_all is_hex_digit oid)"

definition findById :: "store \<Rightarrow> string \<Rightarrow> js_error + alert option" where
  "findById db oid =
     (if valid_object_id oid
      then Inr (map_option (\<lambda>doc. doc\<lparr>isNew := False\<rparr>) (db oid))
      else Inl CastError)"

text \<open>The virtual \<open>ageInMinutes\<close>.\<close>

definition ageInMinutes :: "int \<Rightarrow> alert \<Rightarrow> js_error + int" where
  "ageInMinutes now this =
     (case createdAt this of
        None \<Rightarrow> Inl TypeError
      | Some c \<Rightarrow> Inr ((now - c) div (1000 * 60)))"

text \<open>
  The instance methods. A default parameter \<open>notes = ''\<close> is applied by the caller
  (\<open>default_notes\<close>), so the methods take a string.
\<close>

definition default_notes :: "string option \<Rightarrow> string" where
  "default_notes n = (case n of None \<Rightarrow> [] | Some s \<Rightarrow> s)"

definition acknowledge :: "int \<Rightarrow> alert \<Rightarrow> string \<Rightarrow> string \<Rightarrow> store \<Rightarrow> js_error + alert \<times> store"
  where
  "acknowledge now this who note db =
     (case createdAt this of
        None \<Rightarrow> Inl TypeError
      | Some c \<Rightarrow>
          let r = (response this)
                    \<lparr>acknowledgedBy := Some who,
                     acknowledgedAt := Some now,
                     responseTime := Some ((now - c) div 1000)\<rparr>;
              r' = (if note \<noteq> [] then r\<lparr>rnotes := Some note\<rparr> else r)
          in Inr (save now (this\<lparr>status := Acknowledged, response := r'\<rparr>) db))"

definition notes_or_empty :: "response_info \<Rightarrow> string" where
  "notes_or_empty r = (case rnotes r of None \<Rightarrow> [] | Some s \<Rightarrow> s)"

definition resolve :: "int \<Rightarrow> alert \<Rightarrow> string \<Rightarrow> string \<Rightarrow> store \<Rightarrow> alert \<times> store" where
  "resolve now this who note db =
     (let r = (response this)\<lparr>resolvedBy := Some who, resolvedAt := Some now\<rparr>;
          r' = (if note \<noteq> []
                then r\<lparr>rnotes := Some (notes_or_empty (response this) @ [CHR 0x0A] @ note)\<rparr>
                else r)
      in save now (this\<lparr>status := Resolved, response := r'\<rparr>) db)"

definition markAsFalsePositive :: "int \<Rightarrow> alert \<Rightarrow> string \<Rightarrow> string \<Rightarrow> store \<Rightarrow> alert \<times> store"
  where
  "markAsFalsePositive now this who note db =
     (let r = (response this)
                \<lparr>resolvedBy := Some who,
                 resolvedAt := Some now,
                 rnotes := Some (notes_or_empty (response this)
                                @ [CHR 0x0A] @ ''Marked as false positive: '' @ note)\<rparr>
      in save now (this\<lparr>status := FalsePositive, response := r\<rparr>) db)"

definition escalate :: "int \<Rightarrow> alert \<Rightarrow> store \<Rightarrow> alert \<times> store" where
  "escalate now this db =
     (if level (escalation this) < maxEscalationLevel (escalation this)
      then save now
             (this\<lparr>escalation := (escalation this)
                      \<lparr>level := level (escalation this) + 1, escalatedAt := Some now\<rparr>\<rparr>) db
      else (this, db))"

text \<open>
  \<open>needsEscalation\<close>. \<open>find\<close> gives the first rule whose level is the current level plus
  one; a rule without a level never matches, and \<open>minutes >= undefined\<close> is false.
\<close>

definition needsEscalation :: "int \<Rightarrow> alert \<Rightarrow> js_error + bool" where
  "needsEscalation now this =
     (if status this \<noteq> Active then Inr False
      else
        let currentLevel = level (escalation this) in
        (case find (\<lambda>rule. rlevel rule = Some (currentLevel + 1))
                (escalationRules (escalation this)) of
           None \<Rightarrow> Inr False
         | Some escalationRule \<Rightarrow>
             (case ageInMinutes now this of
                Inl e \<Rightarrow> Inl e
              | Inr minutesSinceCreated \<Rightarrow>
                  (case timeThreshold escalationRule of
                     None \<Rightarrow> Inr False
                   | Some t \<Rightarrow> Inr (minutesSinceCreated \<ge> t)))))"

section \<open>Alert creation at ingestion (routes/data.js, POST /sensor)\<close>

text \<open>
  For each entry of \<open>emergencies\<close> the route builds \<open>new Alert({...})\<close> from the reading's device
  and the entry and saves it. It passes no escalation field. The title is
  \<open>emergency.type.replace('_', ' ').toUpperCase()\<close>: the first underscore becomes a space.
\<close>

fun type_name :: "alert_type \<Rightarrow> string" where
  "type_name heart_rate_abnormal = ''heart_rate_abnormal''"
| "type_name spo2_low = ''spo2_low''"
| "type_name temperature_abnormal = ''temperature_abnormal''"
| "type_name fall_detected = ''fall_detected''"
| "type_name battery_low = ''battery_low''"
| "type_name device_offline = ''device_offline''"
| "type_name sensor_malfunction = ''sensor_malfunction''"
| "type_name emergency_button = ''emergency_button''"
| "type_name location_outside_safe_zone = ''location_outside_safe_zone''"
| "type_name medication_reminder = ''medication_reminder''"
| "type_name inactivity_detected = ''inactivity_detected''"
| "type_name panic_alert = ''panic_alert''"

fun replace_first :: "char \<Rightarrow> char \<Rightarrow> string \<Rightarrow> string" where
  "replace_first x y [] = []"
| "replace_first x y (c # cs) = (if c = x then y # cs else c # replace_first x y cs)"

definition upper_char :: "char \<Rightarrow> char" where
  "upper_char c =
     (let n = (of_char c :: nat)
      in if 97 \<le> n \<and> n \<le> 122 then char_of (n - 32) else c)"

definition toUpperCase :: "string \<Rightarrow> string" where
  "toUpperCase s = map upper_char s"

definition emergency_alert_fields :: "string \<Rightarrow> string \<Rightarrow> classification \<Rightarrow> alert_fields" where
  "emergency_alert_fields dev_id dev_name emergency =
     \<lparr>f_deviceId = dev_id,
      f_deviceName = dev_name,
      f_type = ctype emergency,
      f_severity = Some (cseverity emergency),
      f_title = toUpperCase (replace_first CHR ''_'' CHR '' '' (type_name (ctype emergency))),
      f_message = cmessage emergency,
      f_level = None,
      f_escalationRules = [],
      f_maxEscalationLevel = None\<rparr>"

section \<open>The lifecycle routes (routes/alerts.js)\<close>

text \<open>
  The user of the request: identifier, role and the identifiers of the user's devices. A
  handler returns its response and the collection after the request. An exception in the
  handler is caught and answered with status 500.
\<close>

record user =
  uid :: string
  role :: string
  devices :: "string list"

datatype http_response = Success string alert | Failure nat string

definition hasAccess :: "user \<Rightarrow> alert \<Rightarrow> bool" where
  "hasAccess usr alert = list_ex (\<lambda>d. d = deviceId alert) (devices usr)"

definition put_acknowledge ::
  "int \<Rightarrow> store \<Rightarrow> user \<Rightarrow> string \<Rightarrow> string option \<Rightarrow> http_response \<times> store" where
  "put_acknowledge now db usr alertId body_notes =
     (case findById db alertId of
        Inl e \<Rightarrow> (Failure 500 ''Server error while acknowledging alert'', db)
      | Inr None \<Rightarrow> (Failure 404 ''Alert not found'', db)
      | Inr (Some alert) \<Rightarrow>
          if role usr \<noteq> ''admin'' \<and> \<not> hasAccess usr alert
          then (Failure 403 ''Access denied to this alert'', db)
          else if status alert \<noteq> Active
          then (Failure 400 ''Alert is not in active status'', db)
          else (case acknowledge now alert (uid usr) (default_notes body_notes) db of
                  Inl e \<Rightarrow> (Failure 500 ''Server error while acknowledging alert'', db)
                | Inr (alert', db') \<Rightarrow> (Success ''Alert acknowledged successfully'' alert', db')))"

definition put_resolve ::
  "int \<Rightarrow> store \<Rightarrow> user \<Rightarrow> string \<Rightarrow> string option \<Rightarrow> http_response \<times> store" where
  "put_resolve now db usr alertId body_notes =
     (case findById db alertId of
        Inl e \<Rightarrow> (Failure 500 ''Server error while resolving alert'', db)
      | Inr None \<Rightarrow> (Failure 404 ''Alert not found'', db)
      | Inr (Some alert) \<Rightarrow>
          if role usr \<noteq> ''admin'' \<and> \<not> hasAccess usr alert
          then (Failure 403 ''Access denied to this alert'', db)
          else (case resolve now alert (uid usr) (default_notes body_notes) db of
                  (alert', db') \<Rightarrow> (Success ''Alert resolved successfully'' alert', db')))"

definition put_false_positive ::
  "int \<Rightarrow> store \<Rightarrow> user \<Rightarrow> string \<Rightarrow> string option \<Rightarrow> http_response \<times> store" where
  "put_false_positive now db usr alertId body_notes =
     (case findById db alertId of
        Inl e \<Rightarrow> (Failure 500 ''Server error while marking alert as false positive'', db)
      | Inr None \<Rightarrow> (Failure 404 ''Alert not found'', db)
      | Inr (Some alert) \<Rightarrow>
          if role usr \<noteq> ''admin'' \<and> \<not> hasAccess usr alert
          then (Failure 403 ''Access denied to this alert'', db)
          else (case markAsFalsePositive now alert (uid usr) (default_notes body_notes) db of
                  (alert', db') \<Rightarrow> (Success ''Alert marked as false positive'' alert', db')))"

text \<open>The three lifecycle routes under one name, and the status each one sets.\<close>

datatype lifecycle_call = CallAcknowledge | CallResolve | CallFalsePositive

fun lifecycle ::
  "lifecycle_call \<Rightarrow> int \<Rightarrow> store \<Rightarrow> user \<Rightarrow> string \<Rightarrow> string option \<Rightarrow> http_response \<times> store"
  where
  "lifecycle CallAcknowledge = put_acknowledge"
| "lifecycle CallResolve = put_resolve"
| "lifecycle CallFalsePositive = put_false_positive"

fun target_status :: "lifecycle_call \<Rightarrow> alert_status" where
  "target_status CallAcknowledge = Acknowledged"
| "target_status CallResolve = Resolved"
| "target_status CallFalsePositive = FalsePositive"

text \<open>
  Sequences of calls of the instance methods on one document, each at its own instant.
  An exception ends the sequence.
\<close>

datatype operation =
    Acknowledge string string
  | Resolve string string
  | MarkAsFalsePositive string string
  | Escalate

fun perform :: "int \<Rightarrow> operation \<Rightarrow> alert \<Rightarrow> store \<Rightarrow> js_error + alert \<times> store" where
  "perform now (Acknowledge who note) this db = acknowledge now this who note db"
| "perform now (Resolve who note) this db = Inr (resolve now this who note db)"
| "perform now (MarkAsFalsePositive who note) this db = Inr (markAsFalsePositive now this who note db)"
| "perform now Escalate this db = Inr (escalate now this db)"

fun run :: "(int \<times> operation) list \<Rightarrow> alert \<Rightarrow> store \<Rightarrow> js_error + alert \<times> store" where
  "run [] this db = Inr (this, db)"
| "run ((now, op) # ops) this db =
     (case perform now op this db of
        Inl e \<Rightarrow> Inl e
      | Inr (this', db') \<Rightarrow> run ops this' db')"

text \<open>The rules of an alert as pairs of level and time threshold.\<close>

definition rule_pairs :: "alert \<Rightarrow> (int option \<times> int option) list" where
  "rule_pairs a = map (\<lambda>rule. (rlevel rule, timeThreshold rule)) (escalationRules (escalation a))"

text \<open>Concrete data for the cases below.\<close>

definition heart_rate_200 :: classification where
  "heart_rate_200 =
     \<lparr>ctype = heart_rate_abnormal, cseverity = Critical, cvalue = JNum 200,
      cmessage = [Txt ''Heart rate '', NumTxt 200, Txt '' BPM is '', Txt ''too high'']\<rparr>"

definition ingested_fields :: alert_fields where
  "ingested_fields = emergency_alert_fields ''ESP32-1'' ''Wristband'' heart_rate_200"

definition example_fields :: "severity \<Rightarrow> alert_fields" where
  "example_fields s = ingested_fields\<lparr>f_severity := Some s\<rparr>"

definition example_alert :: "severity \<Rightarrow> alert_status \<Rightarrow> alert" where
  "example_alert s st = (fst (save 0 (new_Alert ''a1'' (example_fields s)) Map.empty))\<lparr>status := st\<rparr>"

definition example_store :: "severity \<Rightarrow> alert_status \<Rightarrow> store" where
  "example_store s st = [''a1'' \<mapsto> example_alert s st]"

definition example_id :: string where
  "example_id = ''64b7f3a2c9e77a0012345678''"

definition stored_alert :: "alert_status \<Rightarrow> alert" where
  "stored_alert st = (example_alert Critical st)\<lparr>alert_id := example_id\<rparr>"

definition stored_db :: "alert_status \<Rightarrow> store" where
  "stored_db st = [example_id \<mapsto> stored_alert st]"

definition admin_user :: user where
  "admin_user = \<lparr>uid = ''u1'', role = ''admin'', devices = []\<rparr>"

text \<open>
  A document that has been saved (it is not new and has its \<open>createdAt\<close>), and the bound on
  the escalation level.
\<close>

definition persisted :: "alert \<Rightarrow> bool" where
  "persisted a = (\<not> isNew a \<and> createdAt a \<noteq> None)"

definition within_max :: "alert \<Rightarrow> bool" where
  "within_max a = (level (escalation a) \<le> maxEscalationLevel (escalation a))"

section \<open>The threshold evaluator: properties\<close>

lemma heartRate_block_nominal:
  "heartRate_nominal r \<Longrightarrow> heartRate_block r acc = acc"
  by (auto simp: heartRate_nominal_def field_in_def heartRate_block_def truthy_field_def
           split: option.splits)

lemma spO2_block_nominal:
  "spO2_nominal r \<Longrightarrow> spO2_block r acc = acc"
  by (auto simp: spO2_nominal_def field_in_def spO2_block_def truthy_field_def
           split: option.splits)

lemma temperature_block_nominal:
  "temperature_nominal r \<Longrightarrow> temperature_block r acc = acc"
  by (auto simp: temperature_nominal_def field_in_def temperature_block_def truthy_field_def
           split: option.splits)

lemma fall_block_nominal:
  "fall_nominal r \<Longrightarrow> fall_block r acc = acc"
  by (auto simp: fall_nominal_def fall_block_def split: option.splits)

lemma battery_block_nominal:
  "battery_nominal r \<Longrightarrow> battery_block r acc = acc"
  by (auto simp: battery_nominal_def field_in_def battery_block_def truthy_field_def
           split: option.splits)

text \<open>
  C1. A reading in which every present field is nominal (heart rate in [50, 120],
  SpO2 at least 95, temperature in [35.5, 38.5], fall flag false, battery at least 15)
  is given the empty classification list.
\<close>

theorem nominal_reading_no_classification:
  assumes "heartRate_nominal r" and "spO2_nominal r" and "temperature_nominal r"
    and "fall_nominal r" and "battery_nominal r"
  shows "checkEmergencyConditions r = []"
  using assms
  by (simp add: checkEmergencyConditions_def heartRate_block_nominal spO2_block_nominal
        temperature_block_nominal fall_block_nominal battery_block_nominal)

theorem nominal_reading_no_classification_witness:
  "heartRate_nominal (full_reading 72 98 (73 / 2) False 80)
   \<and> spO2_nominal (full_reading 72 98 (73 / 2) False 80)
   \<and> temperature_nominal (full_reading 72 98 (73 / 2) False 80)
   \<and> fall_nominal (full_reading 72 98 (73 / 2) False 80)
   \<and> battery_nominal (full_reading 72 98 (73 / 2) False 80)
   \<and> checkEmergencyConditions (full_reading 72 98 (73 / 2) False 80) = []"
proof -
  let ?r = "full_reading 72 98 (73 / 2) False 80"
  have h1: "heartRate_nominal ?r"
    by (simp add: heartRate_nominal_def field_in_def full_reading_def)
  have h2: "spO2_nominal ?r"
    by (simp add: spO2_nominal_def field_in_def full_reading_def)
  have h3: "temperature_nominal ?r"
    by (simp add: temperature_nominal_def field_in_def full_reading_def)
  have h4: "fall_nominal ?r"
    by (simp add: fall_nominal_def full_reading_def)
  have h5: "battery_nominal ?r"
    by (simp add: battery_nominal_def field_in_def full_reading_def)
  from nominal_reading_no_classification [OF h1 h2 h3 h4 h5] h1 h2 h3 h4 h5
  show ?thesis by simp
qed

lemma checkEmergencyConditions_source_order:
  "checkEmergencyConditions r = evaluate_in_order source_order r"
  by (simp add: checkEmergencyConditions_def evaluate_in_order_def source_order_def)

lemma rule_block_appends:
  "rule_block k r acc = acc @ rule_block k r []"
  by (cases k)
     (simp_all add: heartRate_block_def spO2_block_def temperature_block_def fall_block_def
        battery_block_def split: option.splits)

lemma rule_block_types:
  "map ctype (rule_block k r []) = (if block_pushes k r then [rule_type k] else [])"
  by (cases k)
     (simp_all add: heartRate_block_def spO2_block_def temperature_block_def fall_block_def
        battery_block_def split: option.splits)

lemma foldl_rule_block:
  "foldl (\<lambda>emergencies k. rule_block k r emergencies) acc order
     = acc @ concat (map (\<lambda>k. rule_block k r []) order)"
proof (induction order arbitrary: acc)
  case Nil
  show ?case by simp
next
  case (Cons k ks)
  have "foldl (\<lambda>emergencies k. rule_block k r emergencies) acc (k # ks)
          = foldl (\<lambda>emergencies k. rule_block k r emergencies) (rule_block k r acc) ks"
    by simp
  also have "\<dots> = rule_block k r acc @ concat (map (\<lambda>k. rule_block k r []) ks)"
    by (rule Cons.IH)
  also have "\<dots> = acc @ concat (map (\<lambda>k. rule_block k r []) (k # ks))"
    using rule_block_appends [of k r acc] by simp
  finally show ?case .
qed

lemma evaluate_in_order_concat:
  "evaluate_in_order order r = concat (map (\<lambda>k. rule_block k r []) order)"
  by (simp add: evaluate_in_order_def foldl_rule_block)

lemma evaluate_in_order_types:
  "map ctype (evaluate_in_order order r) = map rule_type (filter (\<lambda>k. block_pushes k r) order)"
  by (induction order) (simp_all add: evaluate_in_order_concat rule_block_types)

lemma evaluate_in_order_mset:
  "mset (evaluate_in_order order r) = (\<Sum>k\<in>#mset order. mset (rule_block k r []))"
  by (induction order) (simp_all add: evaluate_in_order_concat)


lemmas block_defs = heartRate_block_def spO2_block_def temperature_block_def fall_block_def
  battery_block_def truthy_field_def

lemma nominal_update_heartRate:
  "spO2_nominal (r\<lparr>heartRate := h\<rparr>) = spO2_nominal r"
  "temperature_nominal (r\<lparr>heartRate := h\<rparr>) = temperature_nominal r"
  "fall_nominal (r\<lparr>heartRate := h\<rparr>) = fall_nominal r"
  "battery_nominal (r\<lparr>heartRate := h\<rparr>) = battery_nominal r"
  by (simp_all add: spO2_nominal_def temperature_nominal_def fall_nominal_def battery_nominal_def)

lemma nominal_update_spO2:
  "heartRate_nominal (r\<lparr>spO2 := h\<rparr>) = heartRate_nominal r"
  "temperature_nominal (r\<lparr>spO2 := h\<rparr>) = temperature_nominal r"
  "fall_nominal (r\<lparr>spO2 := h\<rparr>) = fall_nominal r"
  "battery_nominal (r\<lparr>spO2 := h\<rparr>) = battery_nominal r"
  by (simp_all add: heartRate_nominal_def temperature_nominal_def fall_nominal_def
        battery_nominal_def)

lemma only_heartRate_breached:
  assumes "spO2_nominal r" and "temperature_nominal r" and "fall_nominal r"
    and "battery_nominal r"
  shows "checkEmergencyConditions r = heartRate_block r []"
  using assms
  by (simp add: checkEmergencyConditions_def spO2_block_nominal temperature_block_nominal
        fall_block_nominal battery_block_nominal)

lemma only_spO2_breached:
  assumes "heartRate_nominal r" and "temperature_nominal r" and "fall_nominal r"
    and "battery_nominal r"
  shows "checkEmergencyConditions r = spO2_block r []"
  using assms
  by (simp add: checkEmergencyConditions_def heartRate_block_nominal temperature_block_nominal
        fall_block_nominal battery_block_nominal)

text \<open>
  C2. With the other fields nominal, a heart rate of 45 gives exactly one classification,
  \<open>heart_rate_abnormal\<close> with severity warning, and a heart rate of 35 the same with severity
  critical; an SpO2 of 92 gives exactly one \<open>spo2_low\<close> with severity warning, and an SpO2
  of 85 the same with severity critical.
\<close>

theorem heartRate_spO2_examples:
  assumes "heartRate_nominal r" and "spO2_nominal r" and "temperature_nominal r"
    and "fall_nominal r" and "battery_nominal r"
  shows
    "checkEmergencyConditions (with_heartRate 45 r) =
       [\<lparr>ctype = heart_rate_abnormal, cseverity = Warning, cvalue = JNum 45,
         cmessage = [Txt ''Heart rate '', NumTxt 45, Txt '' BPM is '', Txt ''too low'']\<rparr>]
     \<and> checkEmergencyConditions (with_heartRate 35 r) =
       [\<lparr>ctype = heart_rate_abnormal, cseverity = Critical, cvalue = JNum 35,
         cmessage = [Txt ''Heart rate '', NumTxt 35, Txt '' BPM is '', Txt ''too low'']\<rparr>]
     \<and> checkEmergencyConditions (with_spO2 92 r) =
       [\<lparr>ctype = spo2_low, cseverity = Warning, cvalue = JNum 92,
         cmessage = [Txt ''Blood oxygen level '', NumTxt 92, Txt ''% is dangerously low'']\<rparr>]
     \<and> checkEmergencyConditions (with_spO2 85 r) =
       [\<lparr>ctype = spo2_low, cseverity = Critical, cvalue = JNum 85,
         cmessage = [Txt ''Blood oxygen level '', NumTxt 85, Txt ''% is dangerously low'']\<rparr>]"
proof -
  have hr: "checkEmergencyConditions (with_heartRate v r) = heartRate_block (with_heartRate v r) []"
    for v
    unfolding with_heartRate_def
    by (rule only_heartRate_breached) (simp_all add: nominal_update_heartRate assms)
  have ox: "checkEmergencyConditions (with_spO2 v r) = spO2_block (with_spO2 v r) []" for v
    unfolding with_spO2_def
    by (rule only_spO2_breached) (simp_all add: nominal_update_spO2 assms)
  show ?thesis
    unfolding hr ox
    by (simp add: with_heartRate_def with_spO2_def heartRate_block_def spO2_block_def
          truthy_field_def)
qed

lemma nominal_example_nominal:
  "heartRate_nominal nominal_example" "spO2_nominal nominal_example"
  "temperature_nominal nominal_example" "fall_nominal nominal_example"
  "battery_nominal nominal_example"
  by (simp_all add: nominal_example_def full_reading_def heartRate_nominal_def spO2_nominal_def
        temperature_nominal_def fall_nominal_def battery_nominal_def field_in_def)

theorem heartRate_spO2_examples_witness:
  "heartRate_nominal nominal_example \<and> spO2_nominal nominal_example
   \<and> temperature_nominal nominal_example \<and> fall_nominal nominal_example
   \<and> battery_nominal nominal_example
   \<and> map (\<lambda>c. (ctype c, cseverity c)) (checkEmergencyConditions (with_heartRate 45 nominal_example))
       = [(heart_rate_abnormal, Warning)]
   \<and> map (\<lambda>c. (ctype c, cseverity c)) (checkEmergencyConditions (with_heartRate 35 nominal_example))
       = [(heart_rate_abnormal, Critical)]
   \<and> map (\<lambda>c. (ctype c, cseverity c)) (checkEmergencyConditions (with_spO2 92 nominal_example))
       = [(spo2_low, Warning)]
   \<and> map (\<lambda>c. (ctype c, cseverity c)) (checkEmergencyConditions (with_spO2 85 nominal_example))
       = [(spo2_low, Critical)]"
  using heartRate_spO2_examples [OF nominal_example_nominal] nominal_example_nominal
  by simp

lemma block_pushes_spec:
  assumes "\<not> has_value (device r) batteryLevel 0"
  shows "block_pushes k r = spec_fires k (zero_as_absent r)"
proof (cases k)
  case HeartRateRule
  then show ?thesis
    by (auto simp add: truthy_field_def present_and_def zero_as_absent_def drop_zero_def
          split: option.splits)
next
  case SpO2Rule
  then show ?thesis
    by (auto simp add: truthy_field_def present_and_def zero_as_absent_def drop_zero_def
          split: option.splits)
next
  case TemperatureRule
  then show ?thesis
    by (auto simp add: truthy_field_def present_and_def zero_as_absent_def drop_zero_def
          split: option.splits)
next
  case FallRule
  then show ?thesis by (simp add: zero_as_absent_def)
next
  case BatteryRule
  with assms show ?thesis
    by (auto simp add: truthy_field_def present_and_def zero_as_absent_def has_value_def
          split: option.splits)
qed

lemma drop_zero_id:
  "\<not> has_value grp mvalue 0 \<Longrightarrow> drop_zero grp = grp"
  by (auto simp add: drop_zero_def has_value_def split: option.splits)

lemma zero_as_absent_id:
  assumes "\<not> has_value (heartRate r) mvalue 0" and "\<not> has_value (spO2 r) mvalue 0"
    and "\<not> has_value (bodyTemperature r) mvalue 0"
  shows "zero_as_absent r = r"
  using assms by (simp add: zero_as_absent_def drop_zero_id)

text \<open>
  C3, as the code has it. A heart-rate, SpO2 or temperature value of exactly 0 counts as
  absent, and the battery level is not exactly 0. Then the five rules fire independently:
  the types of the result are the types of the rules that fire, one entry for each and in
  the order of the source, so a reading that breaches two rules is given two
  classifications; what a block pushes does not depend on what was pushed before it; and
  running the blocks in another order gives the same classifications as a multiset, hence
  as a set. A heart rate of 200 with a battery level of 3 gives the two classifications
  \<open>heart_rate_abnormal\<close> and \<open>battery_low\<close>.
\<close>

theorem rules_fire_independently:
  assumes "\<not> has_value (device r) batteryLevel 0"
  shows "map ctype (checkEmergencyConditions r) = map rule_type (spec_fired (zero_as_absent r))
   \<and> length (checkEmergencyConditions r) = length (spec_fired (zero_as_absent r))
   \<and> (\<not> has_value (heartRate r) mvalue 0 \<and> \<not> has_value (spO2 r) mvalue 0
        \<and> \<not> has_value (bodyTemperature r) mvalue 0 \<longrightarrow>
        map ctype (checkEmergencyConditions r) = map rule_type (spec_fired r)
        \<and> length (checkEmergencyConditions r) = length (spec_fired r))
   \<and> (\<forall>k acc. rule_block k r acc = acc @ rule_block k r [])
   \<and> (mset order = mset source_order \<longrightarrow>
        mset (evaluate_in_order order r) = mset (checkEmergencyConditions r)
        \<and> set (evaluate_in_order order r) = set (checkEmergencyConditions r))
   \<and> map (\<lambda>c. (ctype c, cseverity c))
        (checkEmergencyConditions (full_reading 200 98 (73 / 2) False 3))
       = [(heart_rate_abnormal, Critical), (battery_low, Critical)]"
proof -
  have "map ctype (checkEmergencyConditions r)
     = map rule_type (filter (\<lambda>k. block_pushes k r) source_order)"
    by (simp only: checkEmergencyConditions_source_order evaluate_in_order_types)
  then have types: "map ctype (checkEmergencyConditions r)
     = map rule_type (spec_fired (zero_as_absent r))"
    by (simp add: spec_fired_def block_pushes_spec [OF assms])
  have "length (map ctype (checkEmergencyConditions r))
     = length (map rule_type (spec_fired (zero_as_absent r)))"
    by (simp only: types)
  then have len: "length (checkEmergencyConditions r) = length (spec_fired (zero_as_absent r))"
    by simp
  have nozero: "map ctype (checkEmergencyConditions r) = map rule_type (spec_fired r)
        \<and> length (checkEmergencyConditions r) = length (spec_fired r)"
    if "\<not> has_value (heartRate r) mvalue 0 \<and> \<not> has_value (spO2 r) mvalue 0
        \<and> \<not> has_value (bodyTemperature r) mvalue 0"
    using that types len by (simp add: zero_as_absent_id)
  have indep: "\<forall>k acc. rule_block k r acc = acc @ rule_block k r []"
    using rule_block_appends by blast
  have perm: "mset (evaluate_in_order order r) = mset (checkEmergencyConditions r)
        \<and> set (evaluate_in_order order r) = set (checkEmergencyConditions r)"
    if "mset order = mset source_order"
  proof -
    have m: "mset (evaluate_in_order order r) = mset (checkEmergencyConditions r)"
      by (simp only: checkEmergencyConditions_source_order evaluate_in_order_mset that)
    then show ?thesis by (metis set_mset_mset)
  qed
  have ex: "map (\<lambda>c. (ctype c, cseverity c))
        (checkEmergencyConditions (full_reading 200 98 (73 / 2) False 3))
       = [(heart_rate_abnormal, Critical), (battery_low, Critical)]"
    by (simp add: checkEmergencyConditions_def full_reading_def block_defs)
  from types len nozero indep perm ex show ?thesis by blast
qed

theorem rules_fire_independently_witness:
  "\<not> has_value (device (full_reading 200 98 (73 / 2) False 3)) batteryLevel 0
   \<and> \<not> has_value (heartRate (full_reading 200 98 (73 / 2) False 3)) mvalue 0
   \<and> \<not> has_value (spO2 (full_reading 200 98 (73 / 2) False 3)) mvalue 0
   \<and> \<not> has_value (bodyTemperature (full_reading 200 98 (73 / 2) False 3)) mvalue 0
   \<and> spec_fired (full_reading 200 98 (73 / 2) False 3) = [HeartRateRule, BatteryRule]
   \<and> map ctype (checkEmergencyConditions (full_reading 200 98 (73 / 2) False 3))
       = [heart_rate_abnormal, battery_low]
   \<and> length (checkEmergencyConditions (full_reading 200 98 (73 / 2) False 3)) = 2
   \<and> mset [BatteryRule, FallRule, TemperatureRule, SpO2Rule, HeartRateRule] = mset source_order
   \<and> set (evaluate_in_order [BatteryRule, FallRule, TemperatureRule, SpO2Rule, HeartRateRule]
            (full_reading 200 98 (73 / 2) False 3))
       = set (checkEmergencyConditions (full_reading 200 98 (73 / 2) False 3))
   \<and> \<not> has_value (device (full_reading 0 98 (73 / 2) False 3)) batteryLevel 0
   \<and> spec_fired (zero_as_absent (full_reading 0 98 (73 / 2) False 3)) = [BatteryRule]
   \<and> map ctype (checkEmergencyConditions (full_reading 0 98 (73 / 2) False 3)) = [battery_low]"
proof -
  let ?r = "full_reading 200 98 (73 / 2) False 3"
  let ?z = "full_reading 0 98 (73 / 2) False 3"
  have nz: "\<not> has_value (device ?r) batteryLevel 0" "\<not> has_value (heartRate ?r) mvalue 0"
    "\<not> has_value (spO2 ?r) mvalue 0" "\<not> has_value (bodyTemperature ?r) mvalue 0"
    "\<not> has_value (device ?z) batteryLevel 0"
    by (simp_all add: has_value_def full_reading_def)
  have p: "mset [BatteryRule, FallRule, TemperatureRule, SpO2Rule, HeartRateRule]
             = mset source_order"
    by (simp add: source_order_def)
  have f: "spec_fired ?r = [HeartRateRule, BatteryRule]"
    by (simp add: spec_fired_def source_order_def full_reading_def present_and_def)
  have g: "spec_fired (zero_as_absent ?z) = [BatteryRule]"
    by (simp add: spec_fired_def source_order_def full_reading_def present_and_def
          zero_as_absent_def drop_zero_def)
  note two = rules_fire_independently
         [OF nz(1), of "[BatteryRule, FallRule, TemperatureRule, SpO2Rule, HeartRateRule]"]
  note one = rules_fire_independently [OF nz(5), of "[]"]
  from two nz(2,3,4)
  have "map ctype (checkEmergencyConditions ?r) = map rule_type (spec_fired ?r)
        \<and> length (checkEmergencyConditions ?r) = length (spec_fired ?r)"
    by blast
  then have t2: "map ctype (checkEmergencyConditions ?r) = [heart_rate_abnormal, battery_low]"
    and l2: "length (checkEmergencyConditions ?r) = 2"
    by (simp_all add: f)
  from two p
  have s2: "set (evaluate_in_order [BatteryRule, FallRule, TemperatureRule, SpO2Rule,
                   HeartRateRule] ?r) = set (checkEmergencyConditions ?r)"
    by blast
  from one
  have "map ctype (checkEmergencyConditions ?z) = map rule_type (spec_fired (zero_as_absent ?z))"
    by blast
  then have t1: "map ctype (checkEmergencyConditions ?z) = [battery_low]"
    by (simp add: g)
  from nz p f g t2 l2 s2 t1 show ?thesis by blast
qed

text \<open>
  C3, as the claim states it, fails: a reading with a heart rate of 0 and a battery level
  of 3 has two fields outside their bounds, so two rules of the specification fire, and it
  is given one classification, \<open>battery_low\<close>.
\<close>

theorem zero_heart_rate_counterexample:
  "spec_fired (full_reading 0 98 (73 / 2) False 3) = [HeartRateRule, BatteryRule]
   \<and> map ctype (checkEmergencyConditions (full_reading 0 98 (73 / 2) False 3)) = [battery_low]"
  by (simp add: spec_fired_def source_order_def present_and_def checkEmergencyConditions_def
        full_reading_def block_defs)

text \<open>
  The same happens at a battery level of 0 with a heart rate of 200: two rules of the
  specification fire and only \<open>heart_rate_abnormal\<close> is pushed.
\<close>

lemma zero_battery_one_of_two:
  "spec_fired (full_reading 200 98 (73 / 2) False 0) = [HeartRateRule, BatteryRule]
   \<and> map ctype (checkEmergencyConditions (full_reading 200 98 (73 / 2) False 0))
       = [heart_rate_abnormal]"
  by (simp add: spec_fired_def source_order_def present_and_def checkEmergencyConditions_def
        full_reading_def block_defs)

text \<open>
  C4. The claim: with the battery level present, \<open>battery_low\<close> fires exactly when the level
  is below 10. The evaluator at a battery level of 0, a level that the validation accepts
  and the firmware sends: nothing is pushed, although 0 is below 10 and below 5, while a
  level of 1 is classified critical. The presence test \<open>this.device.batteryLevel &&\<close>
  takes the number 0 for a missing field.
\<close>

theorem battery_zero_not_classified:
  "checkEmergencyConditions (full_reading 72 98 (73 / 2) False 0) = []
   \<and> battery_block \<lparr>heartRate = None, spO2 = None, bodyTemperature = None, motion = None,
                     device = Some \<lparr>batteryLevel = Some 0\<rparr>\<rparr> [] = []
   \<and> map (\<lambda>c. (ctype c, cseverity c))
       (checkEmergencyConditions (full_reading 72 98 (73 / 2) False 1))
       = [(battery_low, Critical)]"
  by (simp add: checkEmergencyConditions_def full_reading_def block_defs)

text \<open>For a battery level that is not zero the block is the rule as the claim states it.\<close>

lemma battery_low_nonzero:
  assumes "device r = Some d" and "batteryLevel d = Some v" and "v \<noteq> 0"
  shows "battery_block r acc =
           (if v < 10
            then acc @ [\<lparr>ctype = battery_low,
                         cseverity = (if v < 5 then Critical else Warning),
                         cvalue = JNum v,
                         cmessage = [Txt ''Device battery level is critically low: '',
                                     NumTxt v, Txt ''%'']\<rparr>]
            else acc)"
  using assms by (simp add: battery_block_def truthy_field_def)

lemma zero_not_pushed:
  "has_value (heartRate r) mvalue 0 \<Longrightarrow> \<not> block_pushes HeartRateRule r"
  "has_value (spO2 r) mvalue 0 \<Longrightarrow> \<not> block_pushes SpO2Rule r"
  "has_value (device r) batteryLevel 0 \<Longrightarrow> \<not> block_pushes BatteryRule r"
  by (auto simp: has_value_def truthy_field_def split: option.splits)

lemma type_in_result:
  "t \<in> ctype ` set (checkEmergencyConditions r)
     \<longleftrightarrow> (\<exists>k \<in> set source_order. block_pushes k r \<and> rule_type k = t)"
proof -
  have "ctype ` set (checkEmergencyConditions r) = set (map ctype (checkEmergencyConditions r))"
    by simp
  also have "\<dots> = set (map rule_type (filter (\<lambda>k. block_pushes k r) source_order))"
    by (simp only: checkEmergencyConditions_source_order evaluate_in_order_types)
  finally show ?thesis by auto
qed

text \<open>
  C10. A reading whose heart-rate value, SpO2 value or battery level is exactly 0 is given
  no \<open>heart_rate_abnormal\<close>, \<open>spo2_low\<close> or \<open>battery_low\<close> classification, respectively: the
  presence tests take a zero for an absent field.
\<close>

theorem zero_value_treated_as_absent:
  "(has_value (heartRate r) mvalue 0 \<longrightarrow>
      heart_rate_abnormal \<notin> ctype ` set (checkEmergencyConditions r))
   \<and> (has_value (spO2 r) mvalue 0 \<longrightarrow>
      spo2_low \<notin> ctype ` set (checkEmergencyConditions r))
   \<and> (has_value (device r) batteryLevel 0 \<longrightarrow>
      battery_low \<notin> ctype ` set (checkEmergencyConditions r))"
  using zero_not_pushed [of r]
  by (auto simp: type_in_result source_order_def)

theorem zero_value_treated_as_absent_witness:
  "has_value (heartRate (full_reading 0 0 (73 / 2) False 0)) mvalue 0
   \<and> has_value (spO2 (full_reading 0 0 (73 / 2) False 0)) mvalue 0
   \<and> has_value (device (full_reading 0 0 (73 / 2) False 0)) batteryLevel 0
   \<and> heart_rate_abnormal \<notin> ctype ` set (checkEmergencyConditions (full_reading 0 0 (73 / 2) False 0))
   \<and> spo2_low \<notin> ctype ` set (checkEmergencyConditions (full_reading 0 0 (73 / 2) False 0))
   \<and> battery_low \<notin> ctype ` set (checkEmergencyConditions (full_reading 0 0 (73 / 2) False 0))"
proof -
  let ?r = "full_reading 0 0 (73 / 2) False 0"
  have h: "has_value (heartRate ?r) mvalue 0" "has_value (spO2 ?r) mvalue 0"
    "has_value (device ?r) batteryLevel 0"
    by (simp_all add: has_value_def full_reading_def)
  from zero_value_treated_as_absent [of ?r] h show ?thesis by simp
qed


section \<open>Alerts: properties\<close>

lemma pre_save_not_new: "\<not> isNew a \<Longrightarrow> pre_save a = a"
  by (simp add: pre_save_def)

lemma not_new_idem: "\<not> isNew a \<Longrightarrow> a\<lparr>isNew := False\<rparr> = a"
  by (cases a) simp

lemma save_not_new:
  "\<not> isNew a \<Longrightarrow> save now a db = (a, db(alert_id a \<mapsto> a))"
  by (simp add: save_def pre_save_not_new not_new_idem)

lemma findById_Some:
  "valid_object_id oid \<Longrightarrow> db oid = Some a \<Longrightarrow> findById db oid = Inr (Some (a\<lparr>isNew := False\<rparr>))"
  by (simp add: findById_def)

lemma findById_malformed:
  "\<not> valid_object_id oid \<Longrightarrow> findById db oid = Inl CastError"
  by (simp add: findById_def)

lemma hasAccess_loaded: "hasAccess usr (a\<lparr>isNew := False\<rparr>) = hasAccess usr a"
  by (simp add: hasAccess_def)

text \<open>
  C5. Through the route, acknowledging an active alert sets the status to acknowledged,
  records the user and the instant, and sets \<open>responseTime\<close> to the whole seconds since
  creation; a further acknowledge is then refused. For an alert that is not active the
  request is refused with status 400 (\<open>Alert is not in active status\<close>) and the collection
  is unchanged. The identifier of a stored alert is a well-formed ObjectId; for a
  malformed one the request is answered with status 500 and the collection is unchanged.
\<close>

theorem acknowledge_active_only:
  assumes "db alertId = Some a" and "alert_id a = alertId"
    and "role usr = ''admin'' \<or> hasAccess usr a"
    and "createdAt a = Some c"
  shows "(valid_object_id alertId \<longrightarrow>
          (status a = Active \<longrightarrow>
            (\<exists>a'. put_acknowledge now db usr alertId body_notes
                     = (Success ''Alert acknowledged successfully'' a', db(alertId \<mapsto> a'))
                 \<and> status a' = Acknowledged
                 \<and> acknowledgedBy (response a') = Some (uid usr)
                 \<and> acknowledgedAt (response a') = Some now
                 \<and> responseTime (response a') = Some ((now - c) div 1000)
                 \<and> put_acknowledge later (db(alertId \<mapsto> a')) usr alertId more_notes
                     = (Failure 400 ''Alert is not in active status'', db(alertId \<mapsto> a'))))
          \<and> (status a \<noteq> Active \<longrightarrow>
            put_acknowledge now db usr alertId body_notes
              = (Failure 400 ''Alert is not in active status'', db)))
       \<and> (\<not> valid_object_id alertId \<longrightarrow>
            put_acknowledge now db usr alertId body_notes
              = (Failure 500 ''Server error while acknowledging alert'', db))"
proof (intro conjI impI)
  assume v: "valid_object_id alertId" and act: "status a = Active"
  define r where "r = (response a)\<lparr>acknowledgedBy := Some (uid usr), acknowledgedAt := Some now,
                     responseTime := Some ((now - c) div 1000)\<rparr>"
  define a' where "a' = a\<lparr>isNew := False, status := Acknowledged,
      response := (if default_notes body_notes \<noteq> [] then r\<lparr>rnotes := Some (default_notes body_notes)\<rparr> else r)\<rparr>"
  have ack: "acknowledge now (a\<lparr>isNew := False\<rparr>) (uid usr) (default_notes body_notes) db
               = Inr (a', db(alertId \<mapsto> a'))"
    using assms(2,4)
    by (simp add: acknowledge_def save_not_new a'_def r_def Let_def)
  have first: "put_acknowledge now db usr alertId body_notes
                 = (Success ''Alert acknowledged successfully'' a', db(alertId \<mapsto> a'))"
    using assms(1,3) act
    by (auto simp add: put_acknowledge_def findById_Some [OF v] hasAccess_loaded ack)
  have acc': "hasAccess usr a' = hasAccess usr a"
    by (simp add: hasAccess_def a'_def)
  have fields: "status a' = Acknowledged" "acknowledgedBy (response a') = Some (uid usr)"
    "acknowledgedAt (response a') = Some now"
    "responseTime (response a') = Some ((now - c) div 1000)"
    by (simp_all add: a'_def r_def)
  have second: "put_acknowledge later (db(alertId \<mapsto> a')) usr alertId more_notes
                  = (Failure 400 ''Alert is not in active status'', db(alertId \<mapsto> a'))"
    using assms(3) fields(1)
    by (auto simp add: put_acknowledge_def findById_def v hasAccess_loaded acc')
  from first second fields
  show "\<exists>a'. put_acknowledge now db usr alertId body_notes
                     = (Success ''Alert acknowledged successfully'' a', db(alertId \<mapsto> a'))
                 \<and> status a' = Acknowledged
                 \<and> acknowledgedBy (response a') = Some (uid usr)
                 \<and> acknowledgedAt (response a') = Some now
                 \<and> responseTime (response a') = Some ((now - c) div 1000)
                 \<and> put_acknowledge later (db(alertId \<mapsto> a')) usr alertId more_notes
                     = (Failure 400 ''Alert is not in active status'', db(alertId \<mapsto> a'))"
    by blast
next
  assume v: "valid_object_id alertId" and "status a \<noteq> Active"
  then show "put_acknowledge now db usr alertId body_notes
              = (Failure 400 ''Alert is not in active status'', db)"
    using assms(1,3)
    by (auto simp add: put_acknowledge_def findById_Some [OF v] hasAccess_loaded)
next
  assume "\<not> valid_object_id alertId"
  then show "put_acknowledge now db usr alertId body_notes
              = (Failure 500 ''Server error while acknowledging alert'', db)"
    by (simp add: put_acknowledge_def findById_malformed)
qed

lemma example_alert_simps:
  "alert_id (example_alert s st) = ''a1''" "status (example_alert s st) = st"
  "createdAt (example_alert s st) = Some 0" "isNew (example_alert s st) = False"
  "level (escalation (example_alert s st)) = 1"
  by (simp_all add: example_alert_def save_def pre_save_def new_Alert_def example_fields_def
        ingested_fields_def emergency_alert_fields_def Let_def split: severity.splits)

lemma example_id_valid: "valid_object_id example_id"
  by (simp add: example_id_def valid_object_id_def is_hex_digit_def)

lemma malformed_id: "\<not> valid_object_id ''a1''"
  by (simp add: valid_object_id_def)

lemma stored_alert_simps:
  "alert_id (stored_alert st) = example_id" "status (stored_alert st) = st"
  "createdAt (stored_alert st) = Some 0" "isNew (stored_alert st) = False"
  "stored_db st example_id = Some (stored_alert st)"
  "role admin_user = ''admin'' \<or> hasAccess admin_user (stored_alert st)"
  "uid admin_user = ''u1''"
  by (simp_all add: stored_alert_def stored_db_def example_alert_simps admin_user_def)

lemma findById_stored:
  "findById (stored_db st) example_id = Inr (Some ((stored_alert st)\<lparr>isNew := False\<rparr>))"
  by (simp add: findById_def example_id_valid stored_alert_simps(5))

theorem acknowledge_active_only_witness:
  "stored_db Active example_id = Some (stored_alert Active)
   \<and> alert_id (stored_alert Active) = example_id
   \<and> (role admin_user = ''admin'' \<or> hasAccess admin_user (stored_alert Active))
   \<and> createdAt (stored_alert Active) = Some 0
   \<and> valid_object_id example_id
   \<and> status (stored_alert Active) = Active
   \<and> (\<exists>a'. put_acknowledge 90500 (stored_db Active) admin_user example_id None
              = (Success ''Alert acknowledged successfully'' a',
                 (stored_db Active)(example_id \<mapsto> a'))
          \<and> status a' = Acknowledged
          \<and> acknowledgedBy (response a') = Some ''u1''
          \<and> acknowledgedAt (response a') = Some 90500
          \<and> responseTime (response a') = Some 90)
   \<and> stored_db Acknowledged example_id = Some (stored_alert Acknowledged)
   \<and> status (stored_alert Acknowledged) \<noteq> Active
   \<and> put_acknowledge 90500 (stored_db Acknowledged) admin_user example_id None
       = (Failure 400 ''Alert is not in active status'', stored_db Acknowledged)
   \<and> example_store Critical Active ''a1'' = Some (example_alert Critical Active)
   \<and> alert_id (example_alert Critical Active) = ''a1''
   \<and> \<not> valid_object_id ''a1''
   \<and> put_acknowledge 90500 (example_store Critical Active) admin_user ''a1'' None
       = (Failure 500 ''Server error while acknowledging alert'', example_store Critical Active)"
proof -
  let ?u = admin_user
  note st = stored_alert_simps
  note ex = example_alert_simps [where s = Critical]
  have s1: "example_store Critical Active ''a1'' = Some (example_alert Critical Active)"
    by (simp add: example_store_def)
  have adm: "role ?u = ''admin'' \<or> hasAccess ?u (example_alert Critical Active)"
    by (simp add: admin_user_def)
  note active = acknowledge_active_only
         [where db = "stored_db Active" and alertId = example_id
            and a = "stored_alert Active" and usr = ?u and c = 0
            and now = 90500 and body_notes = None, OF st(5) st(1) st(6) st(3)]
  note acked = acknowledge_active_only
         [where db = "stored_db Acknowledged" and alertId = example_id
            and a = "stored_alert Acknowledged" and usr = ?u and c = 0
            and now = 90500 and body_notes = None, OF st(5) st(1) st(6) st(3)]
  note bad = acknowledge_active_only
         [where db = "example_store Critical Active" and alertId = "''a1''"
            and a = "example_alert Critical Active" and usr = ?u and c = 0
            and now = 90500 and body_notes = None, OF s1 ex(1) adm ex(3)]
  from active example_id_valid
  have one: "\<exists>a'. put_acknowledge 90500 (stored_db Active) admin_user example_id None
              = (Success ''Alert acknowledged successfully'' a',
                 (stored_db Active)(example_id \<mapsto> a'))
          \<and> status a' = Acknowledged
          \<and> acknowledgedBy (response a') = Some ''u1''
          \<and> acknowledgedAt (response a') = Some 90500
          \<and> responseTime (response a') = Some 90"
    by (simp add: st(2,7)) blast
  from acked example_id_valid
  have two: "put_acknowledge 90500 (stored_db Acknowledged) admin_user example_id None
       = (Failure 400 ''Alert is not in active status'', stored_db Acknowledged)"
    by (simp add: st(2))
  from bad malformed_id
  have three: "put_acknowledge 90500 (example_store Critical Active) admin_user ''a1'' None
       = (Failure 500 ''Server error while acknowledging alert'', example_store Critical Active)"
    by blast
  from one two three st s1 ex(1) example_id_valid malformed_id show ?thesis
    by (simp add: st(2))
qed

lemma pre_save_new_rules:
  assumes "isNew a" and "escalationRules (escalation a) = []"
  shows "escalationRules (escalation (pre_save a))
           = (case severity a of
                Emergency \<Rightarrow> [default_rule 1 0, default_rule 2 2, default_rule 3 5]
              | Critical \<Rightarrow> [default_rule 1 0, default_rule 2 5, default_rule 3 15]
              | Warning \<Rightarrow> [default_rule 1 0, default_rule 2 15, default_rule 3 60]
              | Info \<Rightarrow> [default_rule 1 0, default_rule 2 60])"
  using assms by (cases "severity a") (simp_all add: pre_save_def)

lemma pre_save_new_max:
  assumes "isNew a" and "escalationRules (escalation a) = []"
  shows "maxEscalationLevel (escalation (pre_save a))
           = (if severity a = Info then 2 else maxEscalationLevel (escalation a))"
  using assms by (cases "severity a") (simp_all add: pre_save_def)

lemma pre_save_alert_id: "alert_id (pre_save a) = alert_id a"
  by (cases "severity a") (simp_all add: pre_save_def)

lemma save_fields:
  "escalation (fst (save now a db)) = escalation (pre_save a)"
  "alert_id (fst (save now a db)) = alert_id a"
  by (simp_all add: save_def Let_def pre_save_alert_id)

lemma ingestion_passes_no_escalation:
  "f_escalationRules (emergency_alert_fields dev_id dev_name emergency) = []"
  "f_maxEscalationLevel (emergency_alert_fields dev_id dev_name emergency) = None"
  "f_level (emergency_alert_fields dev_id dev_name emergency) = None"
  "f_severity (emergency_alert_fields dev_id dev_name emergency) = Some (cseverity emergency)"
  by (simp_all add: emergency_alert_fields_def)

lemma heart_rate_200_ingested:
  "checkEmergencyConditions (full_reading 200 98 (73 / 2) False 80) = [heart_rate_200]"
  by (simp add: checkEmergencyConditions_def full_reading_def block_defs heart_rate_200_def)

text \<open>
  C7. A new alert saved without escalation rules and without a \<open>maxEscalationLevel\<close> of
  its own is given the rules of its severity: emergency (1,0), (2,2), (3,5) with
  maxEscalationLevel 3; critical (1,0), (2,5), (3,15) with 3; warning, also as the default
  severity, (1,0), (2,15), (3,60) with 3; info (1,0), (2,60) with maxEscalationLevel 2.
\<close>

theorem default_escalation_rules:
  assumes "f_escalationRules f = []" and "f_maxEscalationLevel f = None"
  shows "(f_severity f = Some Emergency \<longrightarrow>
            rule_pairs (fst (save now (new_Alert oid f) db))
              = [(Some 1, Some 0), (Some 2, Some 2), (Some 3, Some 5)]
            \<and> maxEscalationLevel (escalation (fst (save now (new_Alert oid f) db))) = 3)
       \<and> (f_severity f = Some Critical \<longrightarrow>
            rule_pairs (fst (save now (new_Alert oid f) db))
              = [(Some 1, Some 0), (Some 2, Some 5), (Some 3, Some 15)]
            \<and> maxEscalationLevel (escalation (fst (save now (new_Alert oid f) db))) = 3)
       \<and> (f_severity f = Some Warning \<or> f_severity f = None \<longrightarrow>
            rule_pairs (fst (save now (new_Alert oid f) db))
              = [(Some 1, Some 0), (Some 2, Some 15), (Some 3, Some 60)]
            \<and> maxEscalationLevel (escalation (fst (save now (new_Alert oid f) db))) = 3)
       \<and> (f_severity f = Some Info \<longrightarrow>
            rule_pairs (fst (save now (new_Alert oid f) db))
              = [(Some 1, Some 0), (Some 2, Some 60)]
            \<and> maxEscalationLevel (escalation (fst (save now (new_Alert oid f) db))) = 2)
       \<and> snd (save now (new_Alert oid f) db) oid = Some (fst (save now (new_Alert oid f) db))"
proof -
  let ?a = "new_Alert oid f"
  have new: "isNew ?a" "escalationRules (escalation ?a) = []"
    "maxEscalationLevel (escalation ?a) = 3" "alert_id ?a = oid"
    "severity ?a = (case f_severity f of None \<Rightarrow> Warning | Some s \<Rightarrow> s)"
    using assms by (simp_all add: new_Alert_def)
  have pairs: "rule_pairs (fst (save now ?a db)) = rule_pairs (pre_save ?a)"
    and maxl: "maxEscalationLevel (escalation (fst (save now ?a db)))
                 = maxEscalationLevel (escalation (pre_save ?a))"
    and stored: "snd (save now ?a db) oid = Some (fst (save now ?a db))"
    using new(4) by (simp_all add: save_fields rule_pairs_def save_def Let_def pre_save_alert_id)
  show ?thesis
    unfolding pairs maxl
    using stored new(5)
    by (auto simp add: rule_pairs_def pre_save_new_rules [OF new(1,2)]
          pre_save_new_max [OF new(1,2)] new(3) default_rule_def)
qed

theorem default_escalation_rules_witness:
  "f_escalationRules (example_fields Emergency) = []
   \<and> f_maxEscalationLevel (example_fields Emergency) = None
   \<and> f_severity (example_fields Emergency) = Some Emergency
   \<and> rule_pairs (fst (save 0 (new_Alert ''a1'' (example_fields Emergency)) Map.empty))
       = [(Some 1, Some 0), (Some 2, Some 2), (Some 3, Some 5)]
   \<and> maxEscalationLevel
        (escalation (fst (save 0 (new_Alert ''a1'' (example_fields Emergency)) Map.empty))) = 3
   \<and> f_severity (example_fields Info) = Some Info
   \<and> rule_pairs (fst (save 0 (new_Alert ''a1'' (example_fields Info)) Map.empty))
       = [(Some 1, Some 0), (Some 2, Some 60)]
   \<and> maxEscalationLevel
        (escalation (fst (save 0 (new_Alert ''a1'' (example_fields Info)) Map.empty))) = 2
   \<and> f_escalationRules ingested_fields = [] \<and> f_maxEscalationLevel ingested_fields = None
   \<and> f_severity ingested_fields = Some Critical
   \<and> rule_pairs (fst (save 0 (new_Alert ''a1'' ingested_fields) Map.empty))
       = [(Some 1, Some 0), (Some 2, Some 5), (Some 3, Some 15)]
   \<and> maxEscalationLevel (escalation (fst (save 0 (new_Alert ''a1'' ingested_fields) Map.empty)))
       = 3"
proof -
  have g: "f_escalationRules ingested_fields = []" "f_maxEscalationLevel ingested_fields = None"
    "f_severity ingested_fields = Some Critical"
    by (simp_all add: ingested_fields_def ingestion_passes_no_escalation heart_rate_200_def)
  have h: "f_escalationRules (example_fields s) = []"
    "f_maxEscalationLevel (example_fields s) = None"
    "f_severity (example_fields s) = Some s" for s
    by (simp_all add: example_fields_def ingested_fields_def emergency_alert_fields_def)
  from default_escalation_rules [OF h(1,2), of Emergency 0 "''a1''" Map.empty]
       default_escalation_rules [OF h(1,2), of Info 0 "''a1''" Map.empty]
       default_escalation_rules [OF g(1,2), of 0 "''a1''" Map.empty] h g
  show ?thesis by simp
qed

text \<open>
  C8. \<open>needsEscalation\<close> returns true exactly when the status is active, there is a rule
  for the current level plus one (the first such rule is taken) and the whole minutes since
  creation are at least the time threshold of that rule. For a resolved alert it returns
  false whatever the time. For an alert that has been saved it always returns a value.
\<close>

theorem needsEscalation_iff:
  "(needsEscalation now a = Inr True \<longleftrightarrow>
      status a = Active
      \<and> (\<exists>rule t c.
            find (\<lambda>rule. rlevel rule = Some (level (escalation a) + 1))
              (escalationRules (escalation a)) = Some rule
            \<and> timeThreshold rule = Some t
            \<and> createdAt a = Some c
            \<and> t \<le> (now - c) div 60000))
   \<and> (status a = Resolved \<longrightarrow> needsEscalation now a = Inr False)
   \<and> (createdAt a \<noteq> None \<longrightarrow> (\<exists>b. needsEscalation now a = Inr b))"
  by (auto simp add: needsEscalation_def ageInMinutes_def Let_def split: option.splits)

lemma example_alert_rules:
  "escalationRules (escalation (example_alert Critical st))
     = [default_rule 1 0, default_rule 2 5, default_rule 3 15]"
  by (simp add: example_alert_def save_def pre_save_def new_Alert_def example_fields_def ingested_fields_def emergency_alert_fields_def Let_def)

theorem needsEscalation_iff_witness:
  "status (example_alert Critical Resolved) = Resolved
   \<and> needsEscalation 6000000 (example_alert Critical Resolved) = Inr False
   \<and> createdAt (example_alert Critical Active) \<noteq> None
   \<and> needsEscalation 300000 (example_alert Critical Active) = Inr True
   \<and> needsEscalation 299999 (example_alert Critical Active) \<noteq> Inr True"
proof -
  note ex = example_alert_simps [where s = Critical]
  have f: "find (\<lambda>rule. rlevel rule = Some (level (escalation (example_alert Critical st)) + 1))
             (escalationRules (escalation (example_alert Critical st)))
           = Some (default_rule 2 5)" for st
    by (simp add: example_alert_rules ex(5) default_rule_def)
  have t: "timeThreshold (default_rule 2 5) = Some 5" by (simp add: default_rule_def)
  have yes: "needsEscalation 300000 (example_alert Critical Active) = Inr True"
    using needsEscalation_iff [of 300000 "example_alert Critical Active"] f t ex(2,3)
    by simp
  have no: "needsEscalation 299999 (example_alert Critical Active) \<noteq> Inr True"
    using needsEscalation_iff [of 299999 "example_alert Critical Active"] f t ex(2,3)
    by simp
  have res: "needsEscalation 6000000 (example_alert Critical Resolved) = Inr False"
    using needsEscalation_iff [of 6000000 "example_alert Critical Resolved"] ex(2)
    by simp
  from yes no res ex(2,3) show ?thesis by simp
qed

lemma save_status:
  "status (fst (save now a db)) = status a"
  by (cases "severity a") (simp_all add: save_def Let_def pre_save_def)

lemma loaded_fields:
  "status (a\<lparr>isNew := False\<rparr>) = status a" "alert_id (a\<lparr>isNew := False\<rparr>) = alert_id a"
  "\<not> isNew (a\<lparr>isNew := False\<rparr>)"
  by simp_all

lemma resolve_result:
  "\<not> isNew a \<Longrightarrow>
     \<exists>a'. resolve now a who note db = (a', db(alert_id a \<mapsto> a')) \<and> status a' = Resolved
          \<and> resolvedBy (response a') = Some who \<and> resolvedAt (response a') = Some now
          \<and> \<not> isNew a' \<and> alert_id a' = alert_id a \<and> escalation a' = escalation a
          \<and> createdAt a' = createdAt a"
  by (simp add: resolve_def Let_def save_not_new)

lemma markAsFalsePositive_result:
  "\<not> isNew a \<Longrightarrow>
     \<exists>a'. markAsFalsePositive now a who note db = (a', db(alert_id a \<mapsto> a'))
          \<and> status a' = FalsePositive
          \<and> resolvedBy (response a') = Some who \<and> resolvedAt (response a') = Some now
          \<and> \<not> isNew a' \<and> alert_id a' = alert_id a \<and> escalation a' = escalation a
          \<and> createdAt a' = createdAt a"
  by (simp add: markAsFalsePositive_def Let_def save_not_new)

lemma acknowledge_result:
  "\<not> isNew a \<Longrightarrow> createdAt a = Some c \<Longrightarrow>
     \<exists>a'. acknowledge now a who note db = Inr (a', db(alert_id a \<mapsto> a'))
          \<and> status a' = Acknowledged
          \<and> \<not> isNew a' \<and> alert_id a' = alert_id a \<and> escalation a' = escalation a
          \<and> createdAt a' = createdAt a"
  by (simp add: acknowledge_def Let_def save_not_new)

lemma acknowledge_cases:
  "\<not> isNew a \<Longrightarrow>
     acknowledge now a who note db = Inl TypeError
     \<or> (\<exists>a'. acknowledge now a who note db = Inr (a', db(alert_id a \<mapsto> a'))
            \<and> status a' = Acknowledged
            \<and> acknowledgedBy (response a') = Some who
            \<and> acknowledgedAt (response a') = Some now)"
  by (cases "createdAt a") (simp_all add: acknowledge_def Let_def save_not_new)

lemma put_resolve_outcome:
  assumes "db alertId = Some a" and "alert_id a = alertId" and "valid_object_id alertId"
  shows "(if role usr = ''admin'' \<or> hasAccess usr a
          then \<exists>a'. put_resolve now db usr alertId body_notes
                      = (Success ''Alert resolved successfully'' a', db(alertId \<mapsto> a'))
                    \<and> status a' = Resolved
                    \<and> resolvedBy (response a') = Some (uid usr)
                    \<and> resolvedAt (response a') = Some now
          else put_resolve now db usr alertId body_notes
                 = (Failure 403 ''Access denied to this alert'', db))"
proof -
  from resolve_result [OF loaded_fields(3), of now a "uid usr" "default_notes body_notes" db]
  obtain a' where "resolve now (a\<lparr>isNew := False\<rparr>) (uid usr) (default_notes body_notes) db
                     = (a', db(alertId \<mapsto> a'))" and "status a' = Resolved"
    and "resolvedBy (response a') = Some (uid usr)" and "resolvedAt (response a') = Some now"
    using assms(2) by auto
  then show ?thesis
    using assms(1)
    by (auto simp add: put_resolve_def findById_Some [OF assms(3)] hasAccess_loaded)
qed

lemma put_false_positive_outcome:
  assumes "db alertId = Some a" and "alert_id a = alertId" and "valid_object_id alertId"
  shows "(if role usr = ''admin'' \<or> hasAccess usr a
          then \<exists>a'. put_false_positive now db usr alertId body_notes
                      = (Success ''Alert marked as false positive'' a', db(alertId \<mapsto> a'))
                    \<and> status a' = FalsePositive
                    \<and> resolvedBy (response a') = Some (uid usr)
                    \<and> resolvedAt (response a') = Some now
          else put_false_positive now db usr alertId body_notes
                 = (Failure 403 ''Access denied to this alert'', db))"
proof -
  from markAsFalsePositive_result
         [OF loaded_fields(3), of now a "uid usr" "default_notes body_notes" db]
  obtain a' where "markAsFalsePositive now (a\<lparr>isNew := False\<rparr>) (uid usr)
                     (default_notes body_notes) db = (a', db(alertId \<mapsto> a'))"
    and "status a' = FalsePositive"
    and "resolvedBy (response a') = Some (uid usr)" and "resolvedAt (response a') = Some now"
    using assms(2) by auto
  then show ?thesis
    using assms(1)
    by (auto simp add: put_false_positive_def findById_Some [OF assms(3)] hasAccess_loaded)
qed

lemma put_acknowledge_outcome:
  assumes "db alertId = Some a" and "alert_id a = alertId" and "valid_object_id alertId"
  shows "(\<exists>a'. put_acknowledge now db usr alertId body_notes
                 = (Success ''Alert acknowledged successfully'' a', db(alertId \<mapsto> a'))
               \<and> status a' = Acknowledged \<and> status a = Active
               \<and> acknowledgedBy (response a') = Some (uid usr)
               \<and> acknowledgedAt (response a') = Some now)
         \<or> (\<exists>code msg. put_acknowledge now db usr alertId body_notes = (Failure code msg, db))"
proof -
  from acknowledge_cases
         [OF loaded_fields(3), of now a "uid usr" "default_notes body_notes" db]
  show ?thesis
    using assms(1,2)
    by (auto simp add: put_acknowledge_def findById_Some [OF assms(3)] hasAccess_loaded)
qed

lemma lifecycle_malformed:
  "\<not> valid_object_id alertId \<Longrightarrow>
     \<exists>msg. lifecycle call now db usr alertId body_notes = (Failure 500 msg, db)"
  by (cases call)
     (simp_all add: put_acknowledge_def put_resolve_def put_false_positive_def
        findById_malformed)

text \<open>
  C6, as the code has it. Acknowledge is permitted from active only. Resolve and
  mark-false-positive have no guard on the state: for a user with access to the device
  they succeed from every state, resolved and false_positive included, set the status to
  resolved and to false_positive, and record the user and the instant of the call as
  \<open>resolvedBy\<close> and \<open>resolvedAt\<close> again. Every call that succeeds stores the alert with the
  status of the call and with the user and the instant of the call. A call that is refused
  leaves the collection unchanged. No lifecycle call makes an alert active again, and an
  alert that is resolved or false_positive stays one of the two.
\<close>

theorem lifecycle_transitions:
  assumes "db alertId = Some a" and "alert_id a = alertId"
  shows "((\<exists>msg a'. lifecycle call now db usr alertId body_notes
                       = (Success msg a', db(alertId \<mapsto> a'))
                     \<and> status a' = target_status call
                     \<and> (call = CallAcknowledge \<longrightarrow>
                          status a = Active
                          \<and> acknowledgedBy (response a') = Some (uid usr)
                          \<and> acknowledgedAt (response a') = Some now)
                     \<and> (call \<noteq> CallAcknowledge \<longrightarrow>
                          resolvedBy (response a') = Some (uid usr)
                          \<and> resolvedAt (response a') = Some now))
          \<or> (\<exists>code msg. lifecycle call now db usr alertId body_notes = (Failure code msg, db)))
       \<and> (valid_object_id alertId \<and> (role usr = ''admin'' \<or> hasAccess usr a)
            \<and> call \<noteq> CallAcknowledge \<longrightarrow>
            (\<exists>msg a'. lifecycle call now db usr alertId body_notes
                        = (Success msg a', db(alertId \<mapsto> a'))
                      \<and> status a' = target_status call
                      \<and> resolvedBy (response a') = Some (uid usr)
                      \<and> resolvedAt (response a') = Some now))
       \<and> (\<forall>b. snd (lifecycle call now db usr alertId body_notes) alertId = Some b \<longrightarrow>
              (status a \<noteq> Active \<longrightarrow> status b \<noteq> Active)
              \<and> (status a \<in> {Resolved, FalsePositive} \<longrightarrow> status b \<in> {Resolved, FalsePositive}))"
proof -
  let ?res = "lifecycle call now db usr alertId body_notes"
  let ?ok = "\<exists>msg a'. ?res = (Success msg a', db(alertId \<mapsto> a'))
                     \<and> status a' = target_status call
                     \<and> (call = CallAcknowledge \<longrightarrow>
                          status a = Active
                          \<and> acknowledgedBy (response a') = Some (uid usr)
                          \<and> acknowledgedAt (response a') = Some now)
                     \<and> (call \<noteq> CallAcknowledge \<longrightarrow>
                          resolvedBy (response a') = Some (uid usr)
                          \<and> resolvedAt (response a') = Some now)"
  have outcome: "?ok \<or> (\<exists>code msg. ?res = (Failure code msg, db))"
  proof (cases "valid_object_id alertId")
    case False
    from lifecycle_malformed [OF False, of call now db usr body_notes] show ?thesis by blast
  next
    case v: True
    show ?thesis
    proof (cases call)
      case CallAcknowledge
      with put_acknowledge_outcome
         [where db = db and alertId = alertId and a = a and now = now and usr = usr
           and body_notes = body_notes, OF assms v]
      show ?thesis by auto
    next
      case CallResolve
      with put_resolve_outcome
         [where db = db and alertId = alertId and a = a and now = now and usr = usr
           and body_notes = body_notes, OF assms v]
      show ?thesis by (auto split: if_splits)
    next
      case CallFalsePositive
      with put_false_positive_outcome
         [where db = db and alertId = alertId and a = a and now = now and usr = usr
           and body_notes = body_notes, OF assms v]
      show ?thesis by (auto split: if_splits)
    qed
  qed
  have always: "\<exists>msg a'. ?res = (Success msg a', db(alertId \<mapsto> a'))
                      \<and> status a' = target_status call
                      \<and> resolvedBy (response a') = Some (uid usr)
                      \<and> resolvedAt (response a') = Some now"
    if v: "valid_object_id alertId" and "role usr = ''admin'' \<or> hasAccess usr a"
      and "call \<noteq> CallAcknowledge"
  proof (cases call)
    case CallAcknowledge
    with that show ?thesis by simp
  next
    case CallResolve
    with put_resolve_outcome
         [where db = db and alertId = alertId and a = a and now = now and usr = usr
           and body_notes = body_notes, OF assms v] that show ?thesis by auto
  next
    case CallFalsePositive
    with put_false_positive_outcome
         [where db = db and alertId = alertId and a = a and now = now and usr = usr
           and body_notes = body_notes, OF assms v] that show ?thesis by auto
  qed
  have closed: "(status a \<noteq> Active \<longrightarrow> status b \<noteq> Active)
              \<and> (status a \<in> {Resolved, FalsePositive} \<longrightarrow> status b \<in> {Resolved, FalsePositive})"
    if b: "snd ?res alertId = Some b" for b
  proof -
    from outcome show ?thesis
    proof
      assume ?ok
      then obtain msg a' where r: "?res = (Success msg a', db(alertId \<mapsto> a'))"
        and t: "status a' = target_status call"
        and g: "call = CallAcknowledge \<longrightarrow> status a = Active"
        by blast
      from r b have "b = a'" by simp
      with t g show ?thesis by (cases call) auto
    next
      assume "\<exists>code msg. ?res = (Failure code msg, db)"
      then obtain code msg where "?res = (Failure code msg, db)" by blast
      with b assms(1) have "b = a" by simp
      then show ?thesis by simp
    qed
  qed
  from outcome always closed show ?thesis by blast
qed

lemma example_store_simps:
  "example_store s st ''a1'' = Some (example_alert s st)"
  by (simp add: example_store_def)

theorem lifecycle_transitions_witness:
  "stored_db Resolved example_id = Some (stored_alert Resolved)
   \<and> alert_id (stored_alert Resolved) = example_id
   \<and> valid_object_id example_id
   \<and> (role admin_user = ''admin'' \<or> hasAccess admin_user (stored_alert Resolved))
   \<and> CallFalsePositive \<noteq> CallAcknowledge
   \<and> (\<exists>msg a'. lifecycle CallFalsePositive 5000 (stored_db Resolved) admin_user example_id None
                 = (Success msg a', (stored_db Resolved)(example_id \<mapsto> a'))
               \<and> status a' = FalsePositive
               \<and> resolvedBy (response a') = Some ''u1''
               \<and> resolvedAt (response a') = Some 5000)
   \<and> status (stored_alert Resolved) \<in> {Resolved, FalsePositive}
   \<and> status (stored_alert Resolved) \<noteq> Active
   \<and> (\<exists>b. snd (lifecycle CallFalsePositive 5000 (stored_db Resolved) admin_user example_id
                  None) example_id = Some b
            \<and> status b \<noteq> Active \<and> status b \<in> {Resolved, FalsePositive})
   \<and> stored_db Active example_id = Some (stored_alert Active)
   \<and> status (stored_alert Active) = Active
   \<and> (\<exists>msg a'. lifecycle CallAcknowledge 5000 (stored_db Active) admin_user example_id None
                 = (Success msg a', (stored_db Active)(example_id \<mapsto> a'))
               \<and> status a' = Acknowledged
               \<and> acknowledgedBy (response a') = Some ''u1''
               \<and> acknowledgedAt (response a') = Some 5000)"
proof -
  note st = stored_alert_simps
  note fp = lifecycle_transitions
         [where db = "stored_db Resolved" and alertId = example_id
            and a = "stored_alert Resolved" and call = CallFalsePositive
            and usr = admin_user and now = 5000 and body_notes = None, OF st(5) st(1)]
  note ak = lifecycle_transitions
         [where db = "stored_db Active" and alertId = example_id
            and a = "stored_alert Active" and call = CallAcknowledge
            and usr = admin_user and now = 5000 and body_notes = None, OF st(5) st(1)]
  from fp example_id_valid st(6) [of Resolved]
  have one: "\<exists>msg a'. lifecycle CallFalsePositive 5000 (stored_db Resolved) admin_user
                   example_id None
                 = (Success msg a', (stored_db Resolved)(example_id \<mapsto> a'))
               \<and> status a' = FalsePositive
               \<and> resolvedBy (response a') = Some ''u1''
               \<and> resolvedAt (response a') = Some 5000"
    by (simp add: st(7))
  then have two: "\<exists>b. snd (lifecycle CallFalsePositive 5000 (stored_db Resolved) admin_user
                  example_id None) example_id = Some b
            \<and> status b \<noteq> Active \<and> status b \<in> {Resolved, FalsePositive}"
    by auto
  have run: "lifecycle CallAcknowledge 5000 (stored_db Active) admin_user example_id None
               \<noteq> (Failure code msg, stored_db Active)" for code msg
    by (simp add: put_acknowledge_def findById_stored
          hasAccess_loaded st admin_user_def acknowledge_def Let_def save_not_new)
  with ak
  have three: "\<exists>msg a'. lifecycle CallAcknowledge 5000 (stored_db Active) admin_user
                   example_id None
                 = (Success msg a', (stored_db Active)(example_id \<mapsto> a'))
               \<and> status a' = Acknowledged
               \<and> acknowledgedBy (response a') = Some ''u1''
               \<and> acknowledgedAt (response a') = Some 5000"
    by (simp add: st(7)) blast
  from one two three st example_id_valid show ?thesis
    by (simp add: st(2))
qed

text \<open>
  C6, as the claim states it, fails: marking a resolved alert as a false positive succeeds
  and moves it from resolved to false_positive.
\<close>

theorem resolved_alert_changed_counterexample:
  "status (stored_alert Resolved) = Resolved
   \<and> stored_db Resolved example_id = Some (stored_alert Resolved)
   \<and> map_option status
        (snd (put_false_positive 5000 (stored_db Resolved) admin_user example_id None)
           example_id)
       = Some FalsePositive
   \<and> map_option (\<lambda>a. resolvedAt (response a))
        (snd (put_false_positive 5000 (stored_db Resolved) admin_user example_id None)
           example_id)
       = Some (Some 5000)"
  by (simp add: put_false_positive_def findById_stored
        stored_alert_simps admin_user_def markAsFalsePositive_def Let_def save_not_new)

lemma pre_save_keeps:
  "level (escalation (pre_save a)) = level (escalation a)"
  "escalatedAt (escalation (pre_save a)) = escalatedAt (escalation a)"
  "status (pre_save a) = status a"
  "createdAt (pre_save a) = createdAt a"
  "isNew (pre_save a) = isNew a"
  by (cases "severity a"; simp add: pre_save_def)+

lemma save_keeps:
  "level (escalation (fst (save now a db))) = level (escalation a)"
  "escalatedAt (escalation (fst (save now a db))) = escalatedAt (escalation a)"
  "\<not> isNew (fst (save now a db))"
  by (simp_all add: save_fields pre_save_keeps) (simp add: save_def Let_def)

lemma escalate_below_max:
  assumes "level (escalation a) < maxEscalationLevel (escalation a)"
  shows "level (escalation (fst (escalate now a db))) = level (escalation a) + 1"
    and "escalatedAt (escalation (fst (escalate now a db))) = Some now"
    and "status (fst (escalate now a db)) = status a"
  using assms by (simp_all add: escalate_def save_keeps save_status)

lemma escalate_at_max:
  "\<not> level (escalation a) < maxEscalationLevel (escalation a) \<Longrightarrow> escalate now a db = (a, db)"
  by (simp add: escalate_def)

lemma escalate_persisted:
  assumes "persisted a" and "within_max a"
  shows "\<exists>a' db'. escalate now a db = (a', db') \<and> persisted a' \<and> within_max a'
           \<and> maxEscalationLevel (escalation a') = maxEscalationLevel (escalation a)"
  using assms
  by (auto simp add: escalate_def persisted_def within_max_def save_not_new)

lemma perform_persisted:
  assumes "persisted a" and "within_max a"
  shows "\<exists>a' db'. perform now oper a db = Inr (a', db') \<and> persisted a' \<and> within_max a'
           \<and> maxEscalationLevel (escalation a') = maxEscalationLevel (escalation a)"
proof (cases oper)
  case (Acknowledge w nt)
  from assms(1) obtain c where n: "\<not> isNew a" and c: "createdAt a = Some c"
    by (auto simp add: persisted_def)
  from acknowledge_result [OF n c, of now w nt db] assms show ?thesis
    by (auto simp add: Acknowledge persisted_def within_max_def)
next
  case (Resolve w nt)
  from assms(1) have n: "\<not> isNew a" by (simp add: persisted_def)
  from resolve_result [OF n, of now w nt db] assms show ?thesis
    by (auto simp add: Resolve persisted_def within_max_def)
next
  case (MarkAsFalsePositive w nt)
  from assms(1) have n: "\<not> isNew a" by (simp add: persisted_def)
  from markAsFalsePositive_result [OF n, of now w nt db] assms show ?thesis
    by (auto simp add: MarkAsFalsePositive persisted_def within_max_def)
next
  case Escalate
  from escalate_persisted [OF assms, of now db] show ?thesis
    by (auto simp add: Escalate)
qed

lemma run_persisted:
  "persisted a \<Longrightarrow> within_max a \<Longrightarrow>
     \<exists>a' db'. run ops a db = Inr (a', db') \<and> persisted a' \<and> within_max a'
        \<and> maxEscalationLevel (escalation a') = maxEscalationLevel (escalation a)"
proof (induction ops arbitrary: a db)
  case Nil
  then show ?case by simp
next
  case (Cons x ops)
  obtain now oper where x: "x = (now, oper)" by (cases x)
  from perform_persisted [OF Cons.prems, of now oper db]
  obtain a1 db1 where p: "perform now oper a db = Inr (a1, db1)"
    and i: "persisted a1" "within_max a1"
    and m: "maxEscalationLevel (escalation a1) = maxEscalationLevel (escalation a)"
    by blast
  from Cons.IH [OF i, of db1]
  obtain a' db' where "run ops a1 db1 = Inr (a', db')" "persisted a'" "within_max a'"
    "maxEscalationLevel (escalation a') = maxEscalationLevel (escalation a1)"
    by blast
  with p m x show ?case by simp
qed

lemma created_persisted:
  assumes "f_level f = None" and "f_maxEscalationLevel f = None"
  shows "persisted (fst (save now (new_Alert oid f) db))"
    and "within_max (fst (save now (new_Alert oid f) db))"
proof -
  let ?a = "new_Alert oid f"
  have n: "isNew ?a" "createdAt ?a = None" "level (escalation ?a) = 1"
    "maxEscalationLevel (escalation ?a) = 3"
    using assms by (simp_all add: new_Alert_def)
  show "persisted (fst (save now ?a db))"
    by (simp add: persisted_def save_def Let_def pre_save_keeps n)
  have "maxEscalationLevel (escalation (pre_save ?a)) = 3
          \<or> maxEscalationLevel (escalation (pre_save ?a)) = 2"
    using n(4) by (cases "severity ?a") (simp_all add: pre_save_def)
  then show "within_max (fst (save now ?a db))"
    by (auto simp add: within_max_def save_fields pre_save_keeps n(3))
qed

text \<open>
  C9, as the code has it. \<open>escalate\<close> has no guard on the status: in every status, when the
  level is below \<open>maxEscalationLevel\<close> it adds exactly 1 to the level, records the instant
  and leaves the status as it is, and otherwise it changes nothing. An alert created
  without a level or \<open>maxEscalationLevel\<close> of its own starts within its maximum, and from a
  saved alert within its maximum every sequence of acknowledge, resolve,
  mark-false-positive and escalate calls runs through and ends within the same maximum.
\<close>

theorem escalate_level_bounded:
  "(level (escalation a) < maxEscalationLevel (escalation a) \<longrightarrow>
      level (escalation (fst (escalate now a db))) = level (escalation a) + 1
      \<and> escalatedAt (escalation (fst (escalate now a db))) = Some now
      \<and> status (fst (escalate now a db)) = status a)
   \<and> (\<not> level (escalation a) < maxEscalationLevel (escalation a) \<longrightarrow>
      escalate now a db = (a, db))
   \<and> (f_level f = None \<and> f_maxEscalationLevel f = None \<longrightarrow>
      persisted (fst (save t0 (new_Alert oid f) db0))
      \<and> within_max (fst (save t0 (new_Alert oid f) db0)))
   \<and> (persisted a \<and> within_max a \<longrightarrow>
      (\<exists>a' db'. run ops a db = Inr (a', db')
         \<and> level (escalation a') \<le> maxEscalationLevel (escalation a')
         \<and> maxEscalationLevel (escalation a') = maxEscalationLevel (escalation a)))"
proof (intro conjI impI)
  assume "persisted a \<and> within_max a"
  then have "persisted a" "within_max a" by simp_all
  from run_persisted [OF this, of ops db]
  show "\<exists>a' db'. run ops a db = Inr (a', db')
         \<and> level (escalation a') \<le> maxEscalationLevel (escalation a')
         \<and> maxEscalationLevel (escalation a') = maxEscalationLevel (escalation a)"
    by (auto simp add: within_max_def)
qed (simp_all add: escalate_below_max escalate_at_max created_persisted)

lemma example_alert_created:
  "example_alert s Active = fst (save 0 (new_Alert ''a1'' (example_fields s)) Map.empty)"
  by (cases s) (simp_all add: example_alert_def save_def Let_def pre_save_def new_Alert_def
        example_fields_def ingested_fields_def emergency_alert_fields_def)

theorem escalate_level_bounded_witness:
  "f_level (example_fields Info) = None \<and> f_maxEscalationLevel (example_fields Info) = None
   \<and> persisted (example_alert Info Active) \<and> within_max (example_alert Info Active)
   \<and> level (escalation (example_alert Info Active))
       < maxEscalationLevel (escalation (example_alert Info Active))
   \<and> level (escalation (fst (escalate 7 (example_alert Info Active) Map.empty))) = 2
   \<and> \<not> level (escalation (fst (escalate 7 (example_alert Info Active) Map.empty)))
         < maxEscalationLevel (escalation (fst (escalate 7 (example_alert Info Active) Map.empty)))
   \<and> (\<exists>a' db'. run [(7, Escalate), (8, Escalate), (9, Acknowledge ''u1'' []), (10, Escalate),
                      (11, Resolve ''u1'' ''ok''), (12, Escalate)]
                  (example_alert Info Active) Map.empty = Inr (a', db')
          \<and> level (escalation a') \<le> maxEscalationLevel (escalation a')
          \<and> maxEscalationLevel (escalation a') = 2)"
proof -
  let ?a = "example_alert Info Active"
  let ?ops = "[(7, Escalate), (8, Escalate), (9, Acknowledge ''u1'' []), (10, Escalate),
               (11, Resolve ''u1'' ''ok''), (12, Escalate)]"
  have f: "f_level (example_fields Info) = None"
    "f_maxEscalationLevel (example_fields Info) = None"
    by (simp_all add: example_fields_def ingested_fields_def emergency_alert_fields_def)
  have m: "maxEscalationLevel (escalation ?a) = 2"
    by (simp add: example_alert_def save_def Let_def pre_save_def new_Alert_def
          example_fields_def ingested_fields_def emergency_alert_fields_def)
  have l: "level (escalation ?a) = 1" by (rule example_alert_simps(5))
  have below: "level (escalation ?a) < maxEscalationLevel (escalation ?a)"
    by (simp add: m l)
  from escalate_level_bounded
         [where a = ?a and now = 7 and db = Map.empty and f = "example_fields Info"
            and ?t0.0 = 0 and oid = "''a1''" and ?db0.0 = Map.empty and ops = ?ops]
  have step: "level (escalation (fst (escalate 7 ?a Map.empty))) = 2"
    and st: "persisted ?a" "within_max ?a"
    and seq: "\<exists>a' db'. run ?ops ?a Map.empty = Inr (a', db')
         \<and> level (escalation a') \<le> maxEscalationLevel (escalation a')
         \<and> maxEscalationLevel (escalation a') = 2"
    using below f l m by (simp_all add: example_alert_created)
  have m': "maxEscalationLevel (escalation (fst (escalate 7 ?a Map.empty))) = 2"
    using below m
    by (simp add: escalate_def save_not_new example_alert_simps(4))
  from f st below step seq m' show ?thesis by simp
qed

text \<open>
  C9, as the claim states it, fails: \<open>escalate\<close> on a resolved alert is carried out and
  raises the level from 1 to 2.
\<close>

theorem escalate_resolved_counterexample:
  "status (example_alert Critical Resolved) = Resolved
   \<and> level (escalation (example_alert Critical Resolved)) = 1
   \<and> level (escalation (fst (escalate 5000 (example_alert Critical Resolved)
                                 (example_store Critical Resolved)))) = 2
   \<and> map_option (\<lambda>a. (status a, level (escalation a), escalatedAt (escalation a)))
        (snd (escalate 5000 (example_alert Critical Resolved) (example_store Critical Resolved))
           ''a1'')
       = Some (Resolved, 2, Some 5000)"
proof -
  let ?a = "example_alert Critical Resolved"
  have m: "maxEscalationLevel (escalation ?a) = 3"
    by (simp add: example_alert_def save_def Let_def pre_save_def new_Alert_def
          example_fields_def ingested_fields_def emergency_alert_fields_def)
  show ?thesis
    by (simp add: escalate_def m example_alert_simps save_not_new)
qed

end
